theory Spec2Isabelle
  imports Main
begin

section \<open>JavaScript strings and numbers\<close>

text \<open>
  A JavaScript string is modelled as the list of bytes of its UTF-8 encoding, which is
  what the worker's responses transmit.  Every character the code searches for or
  inserts (comma, double quote, newline, the angle brackets) is a single ASCII byte, and
  an ASCII byte never occurs inside a multi-byte UTF-8 sequence, so searching and
  replacing on bytes agrees with searching and replacing on UTF-16 code units.
\<close>

text \<open>\<^verbatim>\<open>s.startsWith(p)\<close>\<close>

fun startsWith :: "string \<Rightarrow> string \<Rightarrow> bool" where
  "startsWith s [] = True"
| "startsWith [] (p # ps) = False"
| "startsWith (c # s) (p # ps) = (c = p \<and> startsWith s ps)"

text \<open>\<^verbatim>\<open>s.includes(p)\<close>\<close>

fun str_includes :: "string \<Rightarrow> string \<Rightarrow> bool" where
  "str_includes [] p = (p = [])"
| "str_includes (c # s) p = (startsWith (c # s) p \<or> str_includes s p)"

text \<open>
  \<^verbatim>\<open>s.replace(p, r)\<close> for a string pattern \<open>p\<close>: the first occurrence of \<open>p\<close> is
  replaced.  (The replacement strings of this program contain no \<^verbatim>\<open>$\<close>, so none of
  the special replacement patterns applies.)
\<close>

fun replace_first :: "string \<Rightarrow> string \<Rightarrow> string \<Rightarrow> string" where
  "replace_first p r [] = (if p = [] then r else [])"
| "replace_first p r (c # s) =
     (if startsWith (c # s) p then r @ drop (length p) (c # s)
      else c # replace_first p r s)"

text \<open>The text after the first occurrence of \<open>p\<close> in \<open>s\<close>, if \<open>p\<close> occurs.\<close>

fun find_after :: "string \<Rightarrow> string \<Rightarrow> string option" where
  "find_after p [] = (if p = [] then Some [] else None)"
| "find_after p (c # s) =
     (if startsWith (c # s) p then Some (drop (length p) (c # s)) else find_after p s)"

text \<open>\<^verbatim>\<open>xs.join(sep)\<close> on an array of strings.\<close>

fun join :: "string \<Rightarrow> string list \<Rightarrow> string" where
  "join sep [] = []"
| "join sep [x] = x"
| "join sep (x # y # ys) = x @ sep @ join sep (y # ys)"

text \<open>
  Number-to-string conversion, as a template literal or \<^verbatim>\<open>Array.prototype.join\<close>
  performs it.  The numbers of the reports are the integers of the store (act numbers,
  beat numbers, scene numbers, versions) and counts of rows, all far below \<open>10^21\<close>,
  where JavaScript prints an integer in plain decimal.
\<close>

definition digit_char :: "nat \<Rightarrow> char" where
  "digit_char d = ''0123456789'' ! d"

fun string_of_nat :: "nat \<Rightarrow> string" where
  "string_of_nat n =
     (if n < 10 then [digit_char n]
      else string_of_nat (n div 10) @ [digit_char (n mod 10)])"

declare string_of_nat.simps [simp del]

definition number_toString :: "int \<Rightarrow> string" where
  "number_toString i =
     (if i < 0 then CHR ''-'' # string_of_nat (nat (- i)) else string_of_nat (nat i))"

text \<open>
  The numbers of a request path.  A route takes them with \<^verbatim>\<open>parseInt\<close> from a run of
  decimal digits of any length, and a JavaScript number is a double.  Up to
  \<^verbatim>\<open>Number.MAX_SAFE_INTEGER\<close>, which is \<open>2^53 - 1 = 9007199254740991\<close>, the number parsed is
  the integer that the digits denote, it is printed in plain decimal, and adding or
  subtracting one is exact.  A longer run of digits is rounded by \<^verbatim>\<open>parseInt\<close>, and from
  \<open>10^21\<close> the number is printed with an exponent (\<^verbatim>\<open>1e+21\<close>).  The pages of the routes are
  described for path numbers in the safe range, the integers that
  \<^verbatim>\<open>Number.isSafeInteger\<close> accepts.
\<close>

typedef safe_integer = "{n :: int. - 9007199254740991 \<le> n \<and> n \<le> 9007199254740991}"
  by (rule exI [of _ 0]) simp

text \<open>
  Truthiness of a nullable string and of a nullable number: \<^verbatim>\<open>null\<close>, the empty
  string and \<open>0\<close> are falsy.
\<close>

fun truthy_str :: "string option \<Rightarrow> bool" where
  "truthy_str None = False"
| "truthy_str (Some s) = (s \<noteq> [])"

fun truthy_num :: "int option \<Rightarrow> bool" where
  "truthy_num None = False"
| "truthy_num (Some n) = (n \<noteq> 0)"

text \<open>
  \<^verbatim>\<open>${v}\<close> in a template literal: the value converted to a string, \<^verbatim>\<open>null\<close> to the
  text \<^verbatim>\<open>null\<close>.
\<close>

fun template_str :: "string option \<Rightarrow> string" where
  "template_str None = ''null''"
| "template_str (Some s) = s"

fun template_num :: "int option \<Rightarrow> string" where
  "template_num None = ''null''"
| "template_num (Some n) = number_toString n"

text \<open>\<^verbatim>\<open>v || d\<close> for a nullable string \<open>v\<close> and a string \<open>d\<close>.\<close>

fun or_else :: "string option \<Rightarrow> string \<Rightarrow> string" where
  "or_else None d = d"
| "or_else (Some s) d = (if s = [] then d else s)"

text \<open>\<^verbatim>\<open>n || d\<close> for a nullable number \<open>n\<close> and a number \<open>d\<close>.\<close>

fun num_or_else :: "int option \<Rightarrow> int \<Rightarrow> int" where
  "num_or_else None d = d"
| "num_or_else (Some n) d = (if n = 0 then d else n)"

text \<open>
  \<^verbatim>\<open>n || ''\<close> for a nullable number, as \<^verbatim>\<open>join\<close> later converts it to text.
\<close>

fun num_or_empty :: "int option \<Rightarrow> string" where
  "num_or_empty None = []"
| "num_or_empty (Some n) = (if n = 0 then [] else number_toString n)"

section \<open>Errors, responses and JSON\<close>

datatype js_error = Error string | ReferenceError string

fun message :: "js_error \<Rightarrow> string" where
  "message (Error m) = m"
| "message (ReferenceError m) = m"

record response =
  status :: nat
  headers :: "(string \<times> string) list"
  body :: string

definition corsHeaders :: "(string \<times> string) list" where
  "corsHeaders =
     [(''Access-Control-Allow-Origin'', ''*''),
      (''Access-Control-Allow-Methods'', ''GET, POST, PUT, DELETE, OPTIONS''),
      (''Access-Control-Allow-Headers'', ''Content-Type, Authorization, X-API-Key'')]"

datatype json =
  JNull
| JNum int
| JStr string
| JArr "json list"
| JObj "(string \<times> json) list"

definition hex_digit :: "nat \<Rightarrow> char" where
  "hex_digit d = ''0123456789abcdef'' ! d"

text \<open>The escapes of \<^verbatim>\<open>JSON.stringify\<close> inside a string.\<close>

definition json_escape :: "char \<Rightarrow> string" where
  "json_escape c =
     (if c = CHR 0x22 then [CHR 0x5C, CHR 0x22]
      else if c = CHR 0x5C then [CHR 0x5C, CHR 0x5C]
      else if c = CHR 0x08 then [CHR 0x5C, CHR ''b'']
      else if c = CHR 0x0C then [CHR 0x5C, CHR ''f'']
      else if c = CHR 0x0A then [CHR 0x5C, CHR ''n'']
      else if c = CHR 0x0D then [CHR 0x5C, CHR ''r'']
      else if c = CHR 0x09 then [CHR 0x5C, CHR ''t'']
      else if of_char c < (32 :: nat)
        then [CHR 0x5C, CHR ''u'', CHR ''0'', CHR ''0'',
              hex_digit (of_char c div 16), hex_digit (of_char c mod 16)]
      else [c])"

definition json_quote :: "string \<Rightarrow> string" where
  "json_quote s = [CHR 0x22] @ concat (map json_escape s) @ [CHR 0x22]"

text \<open>\<^verbatim>\<open>JSON.stringify(data, null, 2)\<close>, at nesting depth \<open>ind\<close> (in spaces).\<close>

fun stringify :: "nat \<Rightarrow> json \<Rightarrow> string" where
  "stringify ind JNull = ''null''"
| "stringify ind (JNum n) = number_toString n"
| "stringify ind (JStr s) = json_quote s"
| "stringify ind (JArr xs) =
     (if xs = [] then ''[]''
      else ''['' @ [CHR 0x0A]
           @ join ('','' @ [CHR 0x0A])
               (map (\<lambda>x. replicate (ind + 2) CHR '' '' @ stringify (ind + 2) x) xs)
           @ [CHR 0x0A] @ replicate ind CHR '' '' @ '']'')"
| "stringify ind (JObj kvs) =
     (if kvs = [] then ''{}''
      else ''{'' @ [CHR 0x0A]
           @ join ('','' @ [CHR 0x0A])
               (map (\<lambda>kv. replicate (ind + 2) CHR '' '' @ json_quote (fst kv) @ '': ''
                            @ stringify (ind + 2) (snd kv)) kvs)
           @ [CHR 0x0A] @ replicate ind CHR '' '' @ ''}'')"

text \<open>\<^verbatim>\<open>jsonResponse(data, status, additionalHeaders)\<close> of \<^verbatim>\<open>utils.js\<close>.\<close>

definition jsonResponse :: "json \<Rightarrow> nat \<Rightarrow> (string \<times> string) list \<Rightarrow> response" where
  "jsonResponse data st additionalHeaders =
     \<lparr>status = st,
      headers = (''Content-Type'', ''application/json'') # additionalHeaders,
      body = stringify 0 data\<rparr>"

section \<open>Data model\<close>

text \<open>
  The columns follow \<^verbatim>\<open>schema.sql\<close>: \<^verbatim>\<open>beat_number INTEGER NOT NULL\<close>,
  \<^verbatim>\<open>act_id INTEGER NOT NULL\<close>, the other columns read by the report nullable.  A
  nullable column is an \<open>option\<close>, \<open>None\<close> being \<^verbatim>\<open>null\<close>.  Several objects of the
  program have fields of the same name; a field is written with its record's name where
  it is not a field of \<open>BeatView\<close>.
\<close>

text \<open>The row of \<^verbatim>\<open>SELECT title FROM acts WHERE act_no = ?\<close>.\<close>

record act_row =
  title :: "string option"

text \<open>The \<^verbatim>\<open>beatData\<close> object handed to \<^verbatim>\<open>generateBeatPage\<close>.\<close>

record BeatData =
  title :: string
  description :: string
  conflict :: string
  emotion :: string
  location :: string
  timeOfDay :: string
  characters :: string
  sceneNumber :: int
  lastUpdated :: string
  createdDate :: string

record BeatView =
  beat_number :: int
  scene_number :: "int option"
  title :: "string option"
  description :: "string option"
  conflict :: "string option"
  emotion :: "string option"
  location :: "string option"
  time_of_day :: "string option"
  characters :: "string option"
  version :: "int option"
  created_at :: "string option"
  updated_at :: "string option"

text \<open>
  A row of a join query over beats and acts: the beat's columns and its act's number and
  title.  (The queries of the page renderers select fewer of the beat's columns; the
  renderers read only the ones they select.)
\<close>

record beat_row = BeatView +
  id :: int
  act_id :: int
  act_no :: int
  act_title :: "string option"

text \<open>The value stored per act in \<^verbatim>\<open>beatsByAct\<close> of \<^verbatim>\<open>generateAllBeatsPage\<close>.\<close>

record ActBeats =
  title :: "string option"
  beats :: "beat_row list"

record ActGroup =
  act_no :: int
  act_id :: int
  act_title :: "string option"
  beats :: "BeatView list"
  beat_count :: nat

record ActCount =
  act_no :: int
  act_title :: "string option"
  beat_count :: nat

record Summary =
  total_acts :: nat
  total_beats :: nat
  beats_per_act :: "ActCount list"

record Report =
  report_type :: string
  generated_at :: string
  summary :: Summary
  acts :: "ActGroup list"

text \<open>
  The Row Source.  The store is an external collaborator with one capability, running a
  query; the model holds its answer to each query the program issues.  \<open>Inl e\<close> is a
  query that raises \<open>e\<close>.
  \<^item> \<open>report_beats\<close>: all current beats with their act, ordered by act and beat number
    (\<^verbatim>\<open>generateBeatReport\<close>);
  \<^item> \<open>beat_first\<close>: the first current beat with the given act and beat number, if any;
  \<^item> \<open>act_first\<close>: the first act with the given number, if any;
  \<^item> \<open>all_beats\<close>: all current beats with their act (\<^verbatim>\<open>generateAllBeatsPage\<close>).
\<close>

record d1_database =
  report_beats :: "js_error + beat_row list"
  beat_first :: "int \<Rightarrow> int \<Rightarrow> js_error + beat_row option"
  act_first :: "int \<Rightarrow> js_error + act_row option"
  all_beats :: "js_error + beat_row list"

section \<open>Beat Report Aggregator\<close>

text \<open>
  \<^verbatim>\<open>reportData\<close> is a JavaScript object used as a dictionary.  Its keys are the strings
  \<^verbatim>\<open>`Act ${beat.act_no}`\<close>, none of which is an array index, so \<^verbatim>\<open>Object.values\<close>
  lists the values in the order the keys were inserted: an association list, extended at
  its end.
\<close>

definition actKey :: "beat_row \<Rightarrow> string" where
  "actKey beat = ''Act '' @ number_toString (beat_row.act_no beat)"

text \<open>\<^verbatim>\<open>obj[k].field = f(obj[k].field)\<close>: the value stored under \<open>k\<close> is changed in place.\<close>

definition modify :: "'k \<Rightarrow> ('a \<Rightarrow> 'a) \<Rightarrow> ('k \<times> 'a) list \<Rightarrow> ('k \<times> 'a) list" where
  "modify k f obj = map (\<lambda>kv. if fst kv = k then (fst kv, f (snd kv)) else kv) obj"

definition beat_view :: "beat_row \<Rightarrow> BeatView" where
  "beat_view beat =
     \<lparr>beat_number = beat_number beat,
      scene_number = scene_number beat,
      title = BeatView.title beat,
      description = BeatView.description beat,
      conflict = BeatView.conflict beat,
      emotion = BeatView.emotion beat,
      location = BeatView.location beat,
      time_of_day = time_of_day beat,
      characters = BeatView.characters beat,
      version = version beat,
      created_at = created_at beat,
      updated_at = updated_at beat\<rparr>"

text \<open>One iteration of the loop \<^verbatim>\<open>for (const beat of beats.results)\<close>.\<close>

definition add_beat ::
  "(string \<times> ActGroup) list \<times> nat \<Rightarrow> beat_row \<Rightarrow> (string \<times> ActGroup) list \<times> nat" where
  "add_beat st beat =
     (let reportData = fst st;
          totalBeats = snd st;
          reportData1 =
            (if map_of reportData (actKey beat) = None
             then reportData @
                    [(actKey beat,
                      \<lparr>ActGroup.act_no = beat_row.act_no beat,
                       ActGroup.act_id = beat_row.act_id beat,
                       ActGroup.act_title = beat_row.act_title beat,
                       ActGroup.beats = [],
                       ActGroup.beat_count = 0\<rparr>)]
             else reportData);
          reportData2 =
            modify (actKey beat)
              (\<lambda>g. g\<lparr>ActGroup.beats := ActGroup.beats g @ [beat_view beat]\<rparr>) reportData1;
          reportData3 =
            modify (actKey beat)
              (\<lambda>g. g\<lparr>ActGroup.beat_count := ActGroup.beat_count g + 1\<rparr>) reportData2
      in (reportData3, totalBeats + 1))"

definition group_by_act :: "beat_row list \<Rightarrow> (string \<times> ActGroup) list \<times> nat" where
  "group_by_act results = foldl add_beat ([], 0) results"

text \<open>
  The report object; \<open>now\<close> is \<^verbatim>\<open>new Date().toISOString()\<close> at the time of the request.
\<close>

definition build_report :: "string \<Rightarrow> beat_row list \<Rightarrow> Report" where
  "build_report now results =
     (let reportData = fst (group_by_act results);
          totalBeats = snd (group_by_act results);
          acts = map snd reportData
      in \<lparr>report_type = ''beats_by_act'',
          generated_at = now,
          summary =
            \<lparr>total_acts = length acts,
             total_beats = totalBeats,
             beats_per_act =
               map (\<lambda>act. \<lparr>ActCount.act_no = ActGroup.act_no act,
                              ActCount.act_title = ActGroup.act_title act,
                              ActCount.beat_count = ActGroup.beat_count act\<rparr>) acts\<rparr>,
          acts = acts\<rparr>)"

section \<open>CSV Projector\<close>

text \<open>\<^verbatim>\<open>str.replace(/"/g, '""')\<close>\<close>

definition double_quotes :: "string \<Rightarrow> string" where
  "double_quotes str = concat (map (\<lambda>c. if c = CHR 0x22 then [CHR 0x22, CHR 0x22] else [c]) str)"

fun escapeCSV :: "string option \<Rightarrow> string" where
  "escapeCSV None = []"
| "escapeCSV (Some str) =
     (if str_includes str '','' \<or> str_includes str [CHR 0x22] \<or> str_includes str [CHR 0x0A]
      then [CHR 0x22] @ double_quotes str @ [CHR 0x22]
      else str)"

definition csv_header :: string where
  \<open>csv_header = ''Act Number,Act Title,Beat Number,Scene Number,Beat Title,Description,Conflict,Emotion,Location,Time of Day,Characters,Version,Created At,Updated At\<newline>''\<close>

text \<open>
  The array \<^verbatim>\<open>row\<close>, each element as \<^verbatim>\<open>join\<close> converts it to text: a number in
  decimal, a string as it is.
\<close>

definition csv_row :: "ActGroup \<Rightarrow> BeatView \<Rightarrow> string list" where
  "csv_row act beat =
     [number_toString (ActGroup.act_no act),
      escapeCSV (Some (or_else (ActGroup.act_title act) [])),
      number_toString (beat_number beat),
      num_or_empty (scene_number beat),
      escapeCSV (Some (or_else (BeatView.title beat) [])),
      escapeCSV (Some (or_else (BeatView.description beat) [])),
      escapeCSV (Some (or_else (BeatView.conflict beat) [])),
      escapeCSV (Some (or_else (BeatView.emotion beat) [])),
      escapeCSV (Some (or_else (BeatView.location beat) [])),
      escapeCSV (Some (or_else (time_of_day beat) [])),
      escapeCSV (Some (or_else (BeatView.characters beat) [])),
      num_or_empty (version beat),
      or_else (created_at beat) [],
      or_else (updated_at beat) []]"

definition generateCSVReport :: "Report \<Rightarrow> string" where
  "generateCSVReport report =
     foldl (\<lambda>csv act.
              foldl (\<lambda>csv beat. csv @ join '','' (csv_row act beat) @ [CHR 0x0A])
                csv (ActGroup.beats act))
       csv_header (acts report)"



section \<open>HTML Projector\<close>

text \<open>
  \<open>today\<close> is \<^verbatim>\<open>new Date().toLocaleDateString('en-US', {weekday: 'long', year:
  'numeric', month: 'long', day: 'numeric'})\<close>, the date of the request in words.  The
  template reads the clock once per act section and once for the header; the model takes
  the date as one value, as for a request that does not run across midnight.
\<close>

definition nav_item :: "ActGroup \<Rightarrow> string" where
  \<open>nav_item act =
     ''\<newline>''
     @ ''          <li class="nav-item">\<newline>''
     @ ''            <a href="#act-''
     @ number_toString (ActGroup.act_no act)
     @ ''" class="nav-link">Act ''
     @ number_toString (ActGroup.act_no act)
     @ ''</a>\<newline>''
     @ ''          </li>\<newline>''
     @ ''        ''\<close>

definition sidebarHTML :: "Report \<Rightarrow> string" where
  \<open>sidebarHTML report =
     ''\<newline>''
     @ ''    <nav class="sidebar">\<newline>''
     @ ''      <h3>Quick Navigation</h3>\<newline>''
     @ ''      <ul class="nav-list">\<newline>''
     @ ''        <li class="nav-item"><a href="#overview" class="nav-link">Overview</a></li>\<newline>''
     @ ''        ''
     @ concat (map nav_item (acts report))
     @ ''\<newline>''
     @ ''      </ul>\<newline>''
     @ ''    </nav>\<newline>''
     @ ''  ''\<close>

definition beat_entry :: "BeatView \<Rightarrow> string" where
  \<open>beat_entry beat =
     ''\<newline>''
     @ ''          <div class="beat-entry">\<newline>''
     @ ''            <h2>Beat ''
     @ number_toString (beat_number beat)
     @ '' ''
     @ (if truthy_num (scene_number beat)
        then ''(Scene '' @ template_num (scene_number beat) @ '')''
        else [])
     @ ''</h2>\<newline>''
     @ ''            <h3>''
     @ or_else (BeatView.title beat) ''Untitled Beat''
     @ ''</h3>\<newline>''
     @ ''            <p><strong>Description:</strong> ''
     @ or_else (BeatView.description beat) ''No description available.''
     @ ''</p>\<newline>''
     @ ''            ''
     @ (if truthy_str (BeatView.conflict beat)
        then ''<p><strong>Conflict:</strong> '' @ template_str (BeatView.conflict beat) @ ''</p>''
        else [])
     @ ''\<newline>''
     @ ''            ''
     @ (if truthy_str (BeatView.emotion beat)
        then ''<p><strong>Emotion:</strong> '' @ template_str (BeatView.emotion beat) @ ''</p>''
        else [])
     @ ''\<newline>''
     @ ''            ''
     @ (if truthy_str (BeatView.location beat)
        then ''<p><strong>Location:</strong> '' @ template_str (BeatView.location beat) @ ''</p>''
        else [])
     @ ''\<newline>''
     @ ''            ''
     @ (if truthy_str (time_of_day beat)
        then ''<p><strong>Time:</strong> '' @ template_str (time_of_day beat) @ ''</p>''
        else [])
     @ ''\<newline>''
     @ ''            ''
     @ (if truthy_str (BeatView.characters beat)
        then ''<p><strong>Characters:</strong> '' @ template_str (BeatView.characters beat) @ ''</p>''
        else [])
     @ ''\<newline>''
     @ ''            <hr>\<newline>''
     @ ''          </div>\<newline>''
     @ ''        ''\<close>

definition act_section :: "string \<Rightarrow> ActGroup \<Rightarrow> string" where
  \<open>act_section today act =
     ''\<newline>''
     @ ''    <div class="act-section" id="act-''
     @ number_toString (ActGroup.act_no act)
     @ ''">\<newline>''
     @ ''      <div class="act-header">\<newline>''
     @ ''        <div class="act-title">Act ''
     @ number_toString (ActGroup.act_no act)
     @ ''</div>\<newline>''
     @ ''        <div class="act-number">Last updated: ''
     @ today
     @ ''</div>\<newline>''
     @ ''      </div>\<newline>''
     @ ''      <div class="act-description">\<newline>''
     @ ''        ''
     @ concat (map beat_entry (ActGroup.beats act))
     @ ''\<newline>''
     @ ''      </div>\<newline>''
     @ ''    </div>\<newline>''
     @ ''  ''\<close>

definition beatsHTML :: "string \<Rightarrow> Report \<Rightarrow> string" where
  "beatsHTML today report = concat (map (act_section today) (acts report))"

definition report_page_head :: string where
  \<open>report_page_head =
     ''<!DOCTYPE html>\<newline>''
   @ ''<html lang="en">\<newline>''
   @ ''<head>\<newline>''
   @ ''    <meta charset="UTF-8">\<newline>''
   @ ''    <meta name="viewport" content="width=device-width, initial-scale=1.0">\<newline>''
   @ ''    <title>Ally - Beat Sheets Report</title>\<newline>''
   @ ''    <style>\<newline>''
   @ ''        * {\<newline>''
   @ ''            margin: 0;\<newline>''
   @ ''            padding: 0;\<newline>''
   @ ''            box-sizing: border-box;\<newline>''
   @ ''        }\<newline>''
   @ ''\<newline>''
   @ ''        body {\<newline>''
   @ ''            font-family: \'Segoe UI\', Roboto, \'Helvetica Neue\', Arial, sans-serif;\<newline>''
   @ ''            background: #0d1117;\<newline>''
   @ ''            color: #c9d1d9;\<newline>''
   @ ''            line-height: 1.6;\<newline>''
   @ ''            padding: 2rem;\<newline>''
   @ ''            transition: background-color 0.3s ease, color 0.3s ease;\<newline>''
   @ ''        }\<newline>''
   @ ''\<newline>''
   @ ''        .container {\<newline>''
   @ ''            max-width: 1200px;\<newline>''
   @ ''            margin: 0 auto;\<newline>''
   @ ''            display: flex;\<newline>''
   @ ''            gap: 2rem;\<newline>''
   @ ''        }\<newline>''
   @ ''        \<newline>''
   @ ''        .sidebar {\<newline>''
   @ ''            width: 250px;\<newline>''
   @ ''            flex-shrink: 0;\<newline>''
   @ ''            position: sticky;\<newline>''
   @ ''            top: 2rem;\<newline>''
   @ ''            height: fit-content;\<newline>''
   @ ''            background: #161b22;\<newline>''
   @ ''            border: 1px solid #30363d;\<newline>''
   @ ''            border-radius: 6px;\<newline>''
   @ ''            padding: 1.5rem;\<newline>''
   @ ''        }\<newline>''
   @ ''        \<newline>''
   @ ''        .sidebar h3 {\<newline>''
   @ ''            color: #58a6ff;\<newline>''
   @ ''            font-size: 1rem;\<newline>''
   @ ''            margin-bottom: 1rem;\<newline>''
   @ ''            font-weight: 600;\<newline>''
   @ ''        }\<newline>''
   @ ''        \<newline>''
   @ ''        .nav-list {\<newline>''
   @ ''            list-style: none;\<newline>''
   @ ''            margin: 0;\<newline>''
   @ ''            padding: 0;\<newline>''
   @ ''        }\<newline>''
   @ ''        \<newline>''
   @ ''        .nav-item {\<newline>''
   @ ''            margin-bottom: 0.5rem;\<newline>''
   @ ''        }\<newline>''
   @ ''        \<newline>''
   @ ''        .nav-link {\<newline>''
   @ ''            color: #8b949e;\<newline>''
   @ ''            text-decoration: none;\<newline>''
   @ ''            font-size: 0.9rem;\<newline>''
   @ ''            display: block;\<newline>''
   @ ''            padding: 0.5rem;\<newline>''
   @ ''            border-radius: 4px;\<newline>''
   @ ''            transition: all 0.2s ease;\<newline>''
   @ ''        }\<newline>''
   @ ''        \<newline>''
   @ ''        .nav-link:hover {\<newline>''
   @ ''            background: #21262d;\<newline>''
   @ ''            color: #c9d1d9;\<newline>''
   @ ''        }\<newline>''
   @ ''        \<newline>''
   @ ''        .main-content {\<newline>''
   @ ''            flex: 1;\<newline>''
   @ ''            min-width: 0;\<newline>''
   @ ''        }\<newline>''
   @ ''\<newline>''
   @ ''        .back-link {\<newline>''
   @ ''            color: #58a6ff;\<newline>''
   @ ''            text-decoration: none;\<newline>''
   @ ''            display: inline-block;\<newline>''
   @ ''            margin-bottom: 2rem;\<newline>''
   @ ''            font-size: 0.9rem;\<newline>''
   @ ''        }\<newline>''
   @ ''\<newline>''
   @ ''        .back-link:hover {\<newline>''
   @ ''            text-decoration: underline;\<newline>''
   @ ''        }\<newline>''
   @ ''\<newline>''
   @ ''        .header {\<newline>''
   @ ''            border-bottom: 2px solid #21262d;\<newline>''
   @ ''            padding-bottom: 1.5rem;\<newline>''
   @ ''            margin-bottom: 2rem;\<newline>''
   @ ''            display: flex;\<newline>''
   @ ''            justify-content: space-between;\<newline>''
   @ ''            align-items: flex-start;\<newline>''
   @ ''        }\<newline>''
   @ ''        \<newline>''
   @ ''        .header-content {\<newline>''
   @ ''            flex: 1;\<newline>''
   @ ''        }\<newline>''
   @ ''\<newline>''
   @ ''        h1 {\<newline>''
   @ ''            font-size: 2rem;\<newline>''
   @ ''            font-weight: 600;\<newline>''
   @ ''            color: #58a6ff;\<newline>''
   @ ''            margin-bottom: 0.5rem;\<newline>''
   @ ''        }\<newline>''
   @ ''\<newline>''
   @ ''        .metadata {\<newline>''
   @ ''            color: #8b949e;\<newline>''
   @ ''            font-size: 0.9rem;\<newline>''
   @ ''        }\<newline>''
   @ ''\<newline>''
   @ ''        .act-section {\<newline>''
   @ ''            background: #161b22;\<newline>''
   @ ''            border: 1px solid #30363d;\<newline>''
   @ ''            border-radius: 6px;\<newline>''
   @ ''            padding: 1.5rem;\<newline>''
   @ ''            margin-bottom: 2rem;\<newline>''
   @ ''        }\<newline>''
   @ ''\<newline>''
   @ ''        .act-header {\<newline>''
   @ ''            display: flex;\<newline>''
   @ ''            justify-content: space-between;\<newline>''
   @ ''            align-items: baseline;\<newline>''
   @ ''            margin-bottom: 1rem;\<newline>''
   @ ''            padding-bottom: 0.5rem;\<newline>''
   @ ''            border-bottom: 1px solid #21262d;\<newline>''
   @ ''        }\<newline>''
   @ ''\<newline>''
   @ ''        .act-title {\<newline>''
   @ ''            font-size: 1.3rem;\<newline>''
   @ ''            font-weight: 600;\<newline>''
   @ ''            color: #58a6ff;\<newline>''
   @ ''        }\<newline>''
   @ ''\<newline>''
   @ ''        .act-number {\<newline>''
   @ ''            color: #f85149;\<newline>''
   @ ''            font-size: 0.9rem;\<newline>''
   @ ''        }\<newline>''
   @ ''\<newline>''
   @ ''        .act-description {\<newline>''
   @ ''            color: #c9d1d9;\<newline>''
   @ ''            font-size: 1rem;\<newline>''
   @ ''            line-height: 1.7;\<newline>''
   @ ''            transition: color 0.3s ease;\<newline>''
   @ ''        }\<newline>''
   @ ''\<newline>''
   @ ''        .beat-entry {\<newline>''
   @ ''            margin-bottom: 2rem;\<newline>''
   @ ''            padding: 1rem;\<newline>''
   @ ''            background: #0d1117;\<newline>''
   @ ''            border-radius: 6px;\<newline>''
   @ ''            border: 1px solid #21262d;\<newline>''
   @ ''        }\<newline>''
   @ ''        \<newline>''
   @ ''        .beat-entry h2 {\<newline>''
   @ ''            font-size: 1.25rem;\<newline>''
   @ ''            font-weight: 600;\<newline>''
   @ ''            margin: 0 0 0.75rem 0;\<newline>''
   @ ''            padding-bottom: 0.5rem;\<newline>''
   @ ''            border-bottom: 1px solid #21262d;\<newline>''
   @ ''            color: #c9d1d9;\<newline>''
   @ ''        }\<newline>''
   @ ''\<newline>''
   @ ''        .beat-entry h3 {\<newline>''
   @ ''            font-size: 1.1rem;\<newline>''
   @ ''            font-weight: 500;\<newline>''
   @ ''            margin: 0 0 0.5rem 0;\<newline>''
   @ ''            color: #58a6ff;\<newline>''
   @ ''        }\<newline>''
   @ ''\<newline>''
   @ ''        .beat-entry p {\<newline>''
   @ ''            margin-bottom: 0.75rem;\<newline>''
   @ ''            line-height: 1.6;\<newline>''
   @ ''        }\<newline>''
   @ ''\<newline>''
   @ ''        .beat-entry strong {\<newline>''
   @ ''            color: #58a6ff;\<newline>''
   @ ''            font-weight: 600;\<newline>''
   @ ''        }\<newline>''
   @ ''\<newline>''
   @ ''        .beat-entry hr {\<newline>''
   @ ''            border: none;\<newline>''
   @ ''            border-top: 1px solid #21262d;\<newline>''
   @ ''            margin: 1.5rem 0 0 0;\<newline>''
   @ ''        }\<newline>''
   @ ''\<newline>''
   @ ''        .stats {\<newline>''
   @ ''            background: #0d1117;\<newline>''
   @ ''            border: 1px solid #30363d;\<newline>''
   @ ''            border-radius: 6px;\<newline>''
   @ ''            padding: 1rem;\<newline>''
   @ ''            margin-bottom: 2rem;\<newline>''
   @ ''            display: grid;\<newline>''
   @ ''            grid-template-columns: 1fr 2fr 1fr 2fr;\<newline>''
   @ ''            gap: 1rem;\<newline>''
   @ ''            transition: background-color 0.3s ease, border-color 0.3s ease;\<newline>''
   @ ''        }\<newline>''
   @ ''\<newline>''
   @ ''        .stat {\<newline>''
   @ ''            text-align: center;\<newline>''
   @ ''        }\<newline>''
   @ ''\<newline>''
   @ ''        .stat-value {\<newline>''
   @ ''            font-size: 1.5rem;\<newline>''
   @ ''            color: #58a6ff;\<newline>''
   @ ''            font-weight: 600;\<newline>''
   @ ''            transition: color 0.3s ease;\<newline>''
   @ ''        }\<newline>''
   @ ''\<newline>''
   @ ''        .stat-label {\<newline>''
   @ ''            color: #8b949e;\<newline>''
   @ ''            font-size: 0.85rem;\<newline>''
   @ ''            text-transform: uppercase;\<newline>''
   @ ''            letter-spacing: 0.5px;\<newline>''
   @ ''            transition: color 0.3s ease;\<newline>''
   @ ''        }\<newline>''
   @ ''\<newline>''
   @ ''        @media (max-width: 768px) {\<newline>''
   @ ''            body {\<newline>''
   @ ''                padding: 1rem;\<newline>''
   @ ''            }\<newline>''
   @ ''            \<newline>''
   @ ''            .container {\<newline>''
   @ ''                flex-direction: column;\<newline>''
   @ ''                gap: 1rem;\<newline>''
   @ ''            }\<newline>''
   @ ''            \<newline>''
   @ ''            .sidebar {\<newline>''
   @ ''                position: static;\<newline>''
   @ ''                width: 100%;\<newline>''
   @ ''                order: -1;\<newline>''
   @ ''            }\<newline>''
   @ ''            \<newline>''
   @ ''            h1 {\<newline>''
   @ ''                font-size: 1.5rem;\<newline>''
   @ ''            }\<newline>''
   @ ''            \<newline>''
   @ ''            .act-section {\<newline>''
   @ ''                padding: 1rem;\<newline>''
   @ ''            }\<newline>''
   @ ''        }\<newline>''
   @ ''    </style>\<newline>''\<close>

definition generateHTMLReport :: "string \<Rightarrow> Report \<Rightarrow> string" where
  \<open>generateHTMLReport today report =
     report_page_head
     @ ''</head>\<newline>''
     @ ''<body>\<newline>''
     @ ''    <div class="container">\<newline>''
     @ ''        ''
     @ sidebarHTML report
     @ ''\<newline>''
     @ ''        \<newline>''
     @ ''        <main class="main-content">\<newline>''
     @ ''            <a href="/" class="back-link">'' @ [CHR 0xE2, CHR 0x86, CHR 0x90] @ '' Back to Beat Sheets</a>\<newline>''
     @ ''            \<newline>''
     @ ''            <div class="header" id="overview">\<newline>''
     @ ''                <div class="header-content">\<newline>''
     @ ''                    <h1>ALLY - BEAT SHEETS REPORT</h1>\<newline>''
     @ ''                    <div style="color: #58a6ff; font-size: 0.9rem; text-align: left;">As of ''
     @ today
     @ ''</div>\<newline>''
     @ ''                </div>\<newline>''
     @ ''                <div style="text-align: right;">\<newline>''
     @ ''                    <div style="margin-bottom: 0.5rem;">\<newline>''
     @ ''                        <a href="/api/reports/beats/csv" target="_blank" style="color: #f85149; text-decoration: none; font-size: 0.9rem; padding: 0.5rem 1rem; border: 1px solid #30363d; border-radius: 4px; background: transparent;">'' @ [CHR 0xF0, CHR 0x9F, CHR 0x93, CHR 0x84] @ '' Download CSV</a>\<newline>''
     @ ''                    </div>\<newline>''
     @ ''                </div>\<newline>''
     @ ''            </div>\<newline>''
     @ ''            \<newline>''
     @ ''            <div class="stats">\<newline>''
     @ ''                <div class="stat">\<newline>''
     @ ''                    <div class="stat-value">''
     @ string_of_nat (total_acts (summary report))
     @ ''</div>\<newline>''
     @ ''                    <div class="stat-label">Acts</div>\<newline>''
     @ ''                </div>\<newline>''
     @ ''                <div class="stat">\<newline>''
     @ ''                    <div class="stat-value">''
     @ string_of_nat (total_beats (summary report))
     @ ''</div>\<newline>''
     @ ''                    <div class="stat-label">Total Beats</div>\<newline>''
     @ ''                </div>\<newline>''
     @ ''                <div class="stat">\<newline>''
     @ ''                    <div class="stat-value">Mark</div>\<newline>''
     @ ''                    <div class="stat-label">Director</div>\<newline>''
     @ ''                </div>\<newline>''
     @ ''                <div class="stat">\<newline>''
     @ ''                    <div class="stat-value">MobiCycle Productions</div>\<newline>''
     @ ''                    <div class="stat-label">Producer</div>\<newline>''
     @ ''                </div>\<newline>''
     @ ''            </div>\<newline>''
     @ ''        \<newline>''
     @ ''            ''
     @ beatsHTML today report
     @ ''\<newline>''
     @ ''            \<newline>''
     @ ''        </main>\<newline>''
     @ ''    </div>\<newline>''
     @ ''</body>\<newline>''
     @ ''</html>''\<close>

section \<open>Print Projector\<close>

definition pdf_style :: string where
  \<open>pdf_style =
     ''\<newline>''
     @ ''      <style>\<newline>''
     @ ''        .actions { display: none !important; }\<newline>''
     @ ''        body { padding: 0 !important; background: white !important; }\<newline>''
     @ ''        .container { box-shadow: none !important; }\<newline>''
     @ ''      </style>\<newline>''
     @ ''    </head>''\<close>

text \<open>
  \<^verbatim>\<open>html.replace(/<div class="actions">[\s\S]*?<\/div>/, '')\<close>: at the leftmost position
  where the opening tag is followed, anywhere later, by \<^verbatim>\<open></div>\<close>, the text from the
  opening tag to the nearest \<^verbatim>\<open></div>\<close> is removed.
\<close>

fun remove_actions :: "string \<Rightarrow> string" where
  \<open>remove_actions [] = []\<close>
| \<open>remove_actions (c # s) =
     (if startsWith (c # s) ''<div class="actions">''
      then (case find_after ''</div>'' (drop (length ''<div class="actions">'') (c # s)) of
              Some rest \<Rightarrow> rest
            | None \<Rightarrow> c # remove_actions s)
      else c # remove_actions s)\<close>

definition generatePDFOptimizedHTML :: "string \<Rightarrow> Report \<Rightarrow> string" where
  \<open>generatePDFOptimizedHTML today report =
     remove_actions (replace_first ''</head>'' pdf_style (generateHTMLReport today report))\<close>

section \<open>Report requests\<close>

text \<open>What \<^verbatim>\<open>generateBeatReport\<close> returns: the report object, or a rendered text.\<close>

datatype report_result = ReportObject Report | ReportText string

definition generateBeatReport ::
  "d1_database \<Rightarrow> string \<Rightarrow> string \<Rightarrow> string \<Rightarrow> js_error + report_result" where
  "generateBeatReport db now today format =
     (case report_beats db of
        Inl error \<Rightarrow> Inl (Error (''Failed to generate report: '' @ message error))
      | Inr results \<Rightarrow>
          (let report = build_report now results
           in if format = ''csv'' then Inr (ReportText (generateCSVReport report))
              else if format = ''html'' then Inr (ReportText (generateHTMLReport today report))
              else if format = ''pdf'' then Inr (ReportText (generatePDFOptimizedHTML today report))
              else Inr (ReportObject report)))"

text \<open>The report as \<^verbatim>\<open>JSON.stringify\<close> sees it.\<close>

fun json_str :: "string option \<Rightarrow> json" where
  "json_str None = JNull"
| "json_str (Some s) = JStr s"

fun json_num :: "int option \<Rightarrow> json" where
  "json_num None = JNull"
| "json_num (Some n) = JNum n"

definition beat_json :: "BeatView \<Rightarrow> json" where
  "beat_json beat =
     JObj [(''beat_number'', JNum (beat_number beat)),
           (''scene_number'', json_num (scene_number beat)),
           (''title'', json_str (BeatView.title beat)),
           (''description'', json_str (BeatView.description beat)),
           (''conflict'', json_str (BeatView.conflict beat)),
           (''emotion'', json_str (BeatView.emotion beat)),
           (''location'', json_str (BeatView.location beat)),
           (''time_of_day'', json_str (time_of_day beat)),
           (''characters'', json_str (BeatView.characters beat)),
           (''version'', json_num (version beat)),
           (''created_at'', json_str (created_at beat)),
           (''updated_at'', json_str (updated_at beat))]"

definition act_json :: "ActGroup \<Rightarrow> json" where
  "act_json act =
     JObj [(''act_no'', JNum (ActGroup.act_no act)),
           (''act_id'', JNum (ActGroup.act_id act)),
           (''act_title'', json_str (ActGroup.act_title act)),
           (''beats'', JArr (map beat_json (ActGroup.beats act))),
           (''beat_count'', JNum (int (ActGroup.beat_count act)))]"

definition report_json :: "Report \<Rightarrow> json" where
  "report_json report =
     JObj [(''report_type'', JStr (report_type report)),
           (''generated_at'', JStr (generated_at report)),
           (''summary'',
            JObj [(''total_acts'', JNum (int (total_acts (summary report)))),
                  (''total_beats'', JNum (int (total_beats (summary report)))),
                  (''beats_per_act'',
                   JArr (map (\<lambda>c. JObj [(''act_no'', JNum (ActCount.act_no c)),
                                          (''act_title'', json_str (ActCount.act_title c)),
                                          (''beat_count'', JNum (int (ActCount.beat_count c)))])
                          (beats_per_act (summary report))))]),
           (''acts'', JArr (map act_json (acts report)))]"

fun result_json :: "report_result \<Rightarrow> json" where
  "result_json (ReportObject report) = report_json report"
| "result_json (ReportText s) = JStr s"

text \<open>The body of \<^verbatim>\<open>new Response(report, ...)\<close>.\<close>

fun result_text :: "report_result \<Rightarrow> string" where
  "result_text (ReportText s) = s"
| "result_text (ReportObject report) = ''[object Object]''"

text \<open>
  \<^verbatim>\<open>handleReportRequest(env, format, corsHeaders)\<close>.  The file name of the CSV download
  holds \<^verbatim>\<open>new Date().toISOString().split('T')[0]\<close>, the text of \<open>now\<close> before its first
  \<^verbatim>\<open>T\<close>.
\<close>

definition handleReportRequest ::
  "d1_database \<Rightarrow> string \<Rightarrow> string \<Rightarrow> string \<Rightarrow> response" where
  \<open>handleReportRequest db now today format =
     (case generateBeatReport db now today format of
        Inr report \<Rightarrow>
          (if format = ''csv'' then
             \<lparr>status = 200,
              headers =
                [(''Content-Type'', ''text/csv''),
                 (''Content-Disposition'',
                  ''attachment; filename="beat-sheets-report-''
                  @ takeWhile (\<lambda>c. c \<noteq> CHR ''T'') now @ ''.csv"'')] @ corsHeaders,
              body = result_text report\<rparr>
           else if format = ''html'' then
             \<lparr>status = 200,
              headers = (''Content-Type'', ''text/html'') # corsHeaders,
              body = result_text report\<rparr>
           else if format = ''pdf'' then
             \<lparr>status = 200,
              headers = (''Content-Type'', ''text/html'') # corsHeaders,
              body = result_text report\<rparr>
           else jsonResponse (result_json report) 200 corsHeaders)
      | Inl error \<Rightarrow>
          jsonResponse
            (JObj [(''error'', JStr ''Report generation failed''),
                   (''message'', JStr (message error))])
            500 corsHeaders)\<close>

text \<open>
  A complete HTML document, as every page template of the program produces it: from the
  document type declaration to the closing \<^verbatim>\<open></html>\<close>.
\<close>

definition is_html_document :: "string \<Rightarrow> bool" where
  \<open>is_html_document s =
     (startsWith s ''<!DOCTYPE html>'' \<and> startsWith (rev s) (rev ''</html>''))\<close>

section \<open>Beat detail page\<close>

definition beat_page_style :: string where
  \<open>beat_page_style =
     ''</title>\<newline>''
   @ ''    <style>\<newline>''
   @ ''        * {\<newline>''
   @ ''            margin: 0;\<newline>''
   @ ''            padding: 0;\<newline>''
   @ ''            box-sizing: border-box;\<newline>''
   @ ''        }\<newline>''
   @ ''\<newline>''
   @ ''        body {\<newline>''
   @ ''            font-family: \'Segoe UI\', Roboto, \'Helvetica Neue\', Arial, sans-serif;\<newline>''
   @ ''            background: #0d1117;\<newline>''
   @ ''            color: #c9d1d9;\<newline>''
   @ ''            line-height: 1.6;\<newline>''
   @ ''            padding: 2rem;\<newline>''
   @ ''        }\<newline>''
   @ ''\<newline>''
   @ ''        .container {\<newline>''
   @ ''            max-width: 1000px;\<newline>''
   @ ''            margin: 0 auto;\<newline>''
   @ ''        }\<newline>''
   @ ''\<newline>''
   @ ''        .back-link {\<newline>''
   @ ''            color: #58a6ff;\<newline>''
   @ ''            text-decoration: none;\<newline>''
   @ ''            display: inline-block;\<newline>''
   @ ''            margin-bottom: 2rem;\<newline>''
   @ ''            font-size: 0.9rem;\<newline>''
   @ ''        }\<newline>''
   @ ''\<newline>''
   @ ''        .back-link:hover {\<newline>''
   @ ''            text-decoration: underline;\<newline>''
   @ ''        }\<newline>''
   @ ''\<newline>''
   @ ''        .header {\<newline>''
   @ ''            border-bottom: 2px solid #21262d;\<newline>''
   @ ''            padding-bottom: 1.5rem;\<newline>''
   @ ''            margin-bottom: 2rem;\<newline>''
   @ ''        }\<newline>''
   @ ''\<newline>''
   @ ''        h1 {\<newline>''
   @ ''            font-size: 2rem;\<newline>''
   @ ''            font-weight: 600;\<newline>''
   @ ''            color: #58a6ff;\<newline>''
   @ ''            margin-bottom: 0.5rem;\<newline>''
   @ ''        }\<newline>''
   @ ''\<newline>''
   @ ''        .metadata {\<newline>''
   @ ''            color: #8b949e;\<newline>''
   @ ''            font-size: 0.9rem;\<newline>''
   @ ''            display: flex;\<newline>''
   @ ''            gap: 2rem;\<newline>''
   @ ''            flex-wrap: wrap;\<newline>''
   @ ''        }\<newline>''
   @ ''\<newline>''
   @ ''        .content-section {\<newline>''
   @ ''            background: #161b22;\<newline>''
   @ ''            border: 1px solid #30363d;\<newline>''
   @ ''            border-radius: 6px;\<newline>''
   @ ''            padding: 2rem;\<newline>''
   @ ''            margin-bottom: 2rem;\<newline>''
   @ ''        }\<newline>''
   @ ''\<newline>''
   @ ''        .content-section h2 {\<newline>''
   @ ''            font-size: 1.3rem;\<newline>''
   @ ''            color: #58a6ff;\<newline>''
   @ ''            margin-bottom: 1rem;\<newline>''
   @ ''            border-bottom: 1px solid #21262d;\<newline>''
   @ ''            padding-bottom: 0.5rem;\<newline>''
   @ ''        }\<newline>''
   @ ''\<newline>''
   @ ''        .content-section p {\<newline>''
   @ ''            margin-bottom: 1rem;\<newline>''
   @ ''            line-height: 1.7;\<newline>''
   @ ''        }\<newline>''
   @ ''\<newline>''
   @ ''        .beat-details {\<newline>''
   @ ''            display: grid;\<newline>''
   @ ''            grid-template-columns: repeat(auto-fit, minmax(250px, 1fr));\<newline>''
   @ ''            gap: 1.5rem;\<newline>''
   @ ''            margin-bottom: 2rem;\<newline>''
   @ ''        }\<newline>''
   @ ''\<newline>''
   @ ''        .detail-card {\<newline>''
   @ ''            background: #0d1117;\<newline>''
   @ ''            border: 1px solid #21262d;\<newline>''
   @ ''            border-radius: 6px;\<newline>''
   @ ''            padding: 1rem;\<newline>''
   @ ''        }\<newline>''
   @ ''\<newline>''
   @ ''        .detail-card h3 {\<newline>''
   @ ''            color: #f85149;\<newline>''
   @ ''            font-size: 0.9rem;\<newline>''
   @ ''            text-transform: uppercase;\<newline>''
   @ ''            letter-spacing: 0.5px;\<newline>''
   @ ''            margin-bottom: 0.5rem;\<newline>''
   @ ''        }\<newline>''
   @ ''\<newline>''
   @ ''        .detail-card p {\<newline>''
   @ ''            color: #c9d1d9;\<newline>''
   @ ''            font-size: 1rem;\<newline>''
   @ ''            margin: 0;\<newline>''
   @ ''        }\<newline>''
   @ ''\<newline>''
   @ ''        .navigation {\<newline>''
   @ ''            display: flex;\<newline>''
   @ ''            justify-content: space-between;\<newline>''
   @ ''            align-items: center;\<newline>''
   @ ''            padding: 1rem 0;\<newline>''
   @ ''            border-top: 1px solid #21262d;\<newline>''
   @ ''            margin-top: 2rem;\<newline>''
   @ ''        }\<newline>''
   @ ''\<newline>''
   @ ''        .nav-button {\<newline>''
   @ ''            color: #58a6ff;\<newline>''
   @ ''            text-decoration: none;\<newline>''
   @ ''            padding: 0.5rem 1rem;\<newline>''
   @ ''            border: 1px solid #30363d;\<newline>''
   @ ''            border-radius: 4px;\<newline>''
   @ ''            transition: background 0.2s;\<newline>''
   @ ''        }\<newline>''
   @ ''\<newline>''
   @ ''        .nav-button:hover {\<newline>''
   @ ''            background: #21262d;\<newline>''
   @ ''        }\<newline>''
   @ ''\<newline>''
   @ ''        .nav-button:disabled {\<newline>''
   @ ''            color: #8b949e;\<newline>''
   @ ''            border-color: #21262d;\<newline>''
   @ ''            pointer-events: none;\<newline>''
   @ ''        }\<newline>''
   @ ''\<newline>''
   @ ''        @media (max-width: 768px) {\<newline>''
   @ ''            body {\<newline>''
   @ ''                padding: 1rem;\<newline>''
   @ ''            }\<newline>''
   @ ''            \<newline>''
   @ ''            h1 {\<newline>''
   @ ''                font-size: 1.5rem;\<newline>''
   @ ''            }\<newline>''
   @ ''            \<newline>''
   @ ''            .beat-details {\<newline>''
   @ ''                grid-template-columns: 1fr;\<newline>''
   @ ''            }\<newline>''
   @ ''            \<newline>''
   @ ''            .navigation {\<newline>''
   @ ''                flex-direction: column;\<newline>''
   @ ''                gap: 1rem;\<newline>''
   @ ''            }\<newline>''
   @ ''        }\<newline>''
   @ ''    </style>\<newline>''
   @ ''</head>\<newline>''
   @ ''<body>\<newline>''
   @ ''    <div class="container">\<newline>''
   @ ''        <a href="/ally/act/''\<close>

text \<open>
  \<^verbatim>\<open>generateBeatPage(actNumber, beatNumber, beatData, actTitle)\<close> of \<^verbatim>\<open>ui.js\<close>.  The act
  title is nullable: the caller passes the act row's title as it is.
\<close>

definition generateBeatPage ::
  "safe_integer \<Rightarrow> safe_integer \<Rightarrow> BeatData \<Rightarrow> string option \<Rightarrow> string" where
  \<open>generateBeatPage actNumber beatNumber beatData actTitle =
     ''<!DOCTYPE html>\<newline>''
     @ ''<html lang="en">\<newline>''
     @ ''<head>\<newline>''
     @ ''    <meta charset="UTF-8">\<newline>''
     @ ''    <meta name="viewport" content="width=device-width, initial-scale=1.0">\<newline>''
     @ ''    <title>ALLY - ''
     @ template_str actTitle
     @ '' - Beat ''
     @ number_toString (Rep_safe_integer beatNumber)
     @ beat_page_style
     @ number_toString (Rep_safe_integer actNumber)
     @ ''" class="back-link">'' @ [CHR 0xE2, CHR 0x86, CHR 0x90] @ '' Back to ''
     @ template_str actTitle
     @ ''</a>\<newline>''
     @ ''        \<newline>''
     @ ''        <div class="header">\<newline>''
     @ ''            <h1>Beat ''
     @ number_toString (Rep_safe_integer beatNumber)
     @ '' ''
     @ (if BeatData.sceneNumber beatData \<noteq> 0
        then ''(Scene '' @ number_toString (BeatData.sceneNumber beatData) @ '')''
        else [])
     @ ''</h1>\<newline>''
     @ ''            <div class="metadata">\<newline>''
     @ ''                <span>Last updated: ''
     @ BeatData.lastUpdated beatData
     @ ''</span>\<newline>''
     @ ''                <span>Created: ''
     @ BeatData.createdDate beatData
     @ ''</span>\<newline>''
     @ ''            </div>\<newline>''
     @ ''        </div>\<newline>''
     @ ''\<newline>''
     @ ''        <div class="content-section">\<newline>''
     @ ''            <h2>''
     @ BeatData.title beatData
     @ ''</h2>\<newline>''
     @ ''            <p>''
     @ BeatData.description beatData
     @ ''</p>\<newline>''
     @ ''        </div>\<newline>''
     @ ''\<newline>''
     @ ''        <div class="beat-details">\<newline>''
     @ ''            <div class="detail-card">\<newline>''
     @ ''                <h3>Conflict</h3>\<newline>''
     @ ''                <p>''
     @ BeatData.conflict beatData
     @ ''</p>\<newline>''
     @ ''            </div>\<newline>''
     @ ''            \<newline>''
     @ ''            <div class="detail-card">\<newline>''
     @ ''                <h3>Emotion</h3>\<newline>''
     @ ''                <p>''
     @ BeatData.emotion beatData
     @ ''</p>\<newline>''
     @ ''            </div>\<newline>''
     @ ''            \<newline>''
     @ ''            <div class="detail-card">\<newline>''
     @ ''                <h3>Location</h3>\<newline>''
     @ ''                <p>''
     @ BeatData.location beatData
     @ ''</p>\<newline>''
     @ ''            </div>\<newline>''
     @ ''            \<newline>''
     @ ''            <div class="detail-card">\<newline>''
     @ ''                <h3>Time of Day</h3>\<newline>''
     @ ''                <p>''
     @ BeatData.timeOfDay beatData
     @ ''</p>\<newline>''
     @ ''            </div>\<newline>''
     @ ''            \<newline>''
     @ ''            <div class="detail-card">\<newline>''
     @ ''                <h3>Characters</h3>\<newline>''
     @ ''                <p>''
     @ BeatData.characters beatData
     @ ''</p>\<newline>''
     @ ''            </div>\<newline>''
     @ ''        </div>\<newline>''
     @ ''\<newline>''
     @ ''        <div class="navigation">\<newline>''
     @ ''            <a href="/ally/act/''
     @ number_toString (Rep_safe_integer actNumber)
     @ ''/beat/''
     @ number_toString (Rep_safe_integer beatNumber - 1)
     @ ''" class="nav-button" ''
     @ (if Rep_safe_integer beatNumber \<le> 1 then ''style="visibility: hidden;"'' else [])
     @ ''>\<newline>''
     @ ''                '' @ [CHR 0xE2, CHR 0x86, CHR 0x90] @ '' Previous Beat\<newline>''
     @ ''            </a>\<newline>''
     @ ''            \<newline>''
     @ ''            <a href="/ally/act/''
     @ number_toString (Rep_safe_integer actNumber)
     @ ''" class="nav-button">\<newline>''
     @ ''                ''
     @ template_str actTitle
     @ '' Overview\<newline>''
     @ ''            </a>\<newline>''
     @ ''            \<newline>''
     @ ''            <a href="/ally/act/''
     @ number_toString (Rep_safe_integer actNumber)
     @ ''/beat/''
     @ number_toString (Rep_safe_integer beatNumber + 1)
     @ ''" class="nav-button">\<newline>''
     @ ''                Next Beat '' @ [CHR 0xE2, CHR 0x86, CHR 0x92] @ ''\<newline>''
     @ ''            </a>\<newline>''
     @ ''        </div>\<newline>''
     @ ''    </div>\<newline>''
     @ ''</body>\<newline>''
     @ ''</html>''\<close>

text \<open>
  The route \<^verbatim>\<open>/ally/act/{actNo}/beat/{beatNo}\<close> of \<^verbatim>\<open>handleRequest\<close>.  \<open>localeDate\<close> is
  \<^verbatim>\<open>s \<mapsto> new Date(s).toLocaleDateString()\<close>, which depends on the runtime's locale.
  The act number and the beat number are the numbers parsed from the path, in the safe
  range.  First the body of the \<^verbatim>\<open>try\<close> block, then the whole route with its \<^verbatim>\<open>catch\<close>.
\<close>

definition beat_route_try ::
  "d1_database \<Rightarrow> (string \<Rightarrow> string) \<Rightarrow> safe_integer \<Rightarrow> safe_integer \<Rightarrow> js_error + response" where
  "beat_route_try db localeDate actNumber beatNumber =
     (case beat_first db (Rep_safe_integer actNumber) (Rep_safe_integer beatNumber) of
        Inl error \<Rightarrow> Inl error
      | Inr None \<Rightarrow>
          (case act_first db (Rep_safe_integer actNumber) of
             Inl error \<Rightarrow> Inl error
           | Inr act \<Rightarrow>
               (let actTitle =
                      (case act of
                         Some a \<Rightarrow> act_row.title a
                       | None \<Rightarrow>
                           Some (''Act '' @ number_toString (Rep_safe_integer actNumber)));
                    beatData =
                      \<lparr>BeatData.title = ''Beat '' @ number_toString (Rep_safe_integer beatNumber),
                       BeatData.description =
                         ''Beat '' @ number_toString (Rep_safe_integer beatNumber)
                         @ '' was not found in '' @ template_str actTitle
                         @ ''. This beat may not exist yet or may have been removed.'',
                       BeatData.conflict = ''N/A'',
                       BeatData.emotion = ''N/A'',
                       BeatData.location = ''N/A'',
                       BeatData.timeOfDay = ''N/A'',
                       BeatData.characters = ''N/A'',
                       BeatData.sceneNumber = Rep_safe_integer beatNumber,
                       BeatData.lastUpdated = ''N/A'',
                       BeatData.createdDate = ''Not available''\<rparr>
                in Inr \<lparr>status = 200,
                        headers = (''Content-Type'', ''text/html'') # corsHeaders,
                        body = generateBeatPage actNumber beatNumber beatData actTitle\<rparr>))
      | Inr (Some beat) \<Rightarrow>
          (let beatData =
                 \<lparr>BeatData.title =
                    or_else (BeatView.title beat)
                      (''Beat '' @ number_toString (Rep_safe_integer beatNumber)),
                  BeatData.description =
                    or_else (BeatView.description beat) ''No description available.'',
                  BeatData.conflict = or_else (BeatView.conflict beat) ''No conflict defined'',
                  BeatData.emotion = or_else (BeatView.emotion beat) ''No emotion specified'',
                  BeatData.location = or_else (BeatView.location beat) ''Location not specified'',
                  BeatData.timeOfDay = or_else (time_of_day beat) ''Time not specified'',
                  BeatData.characters =
                    or_else (BeatView.characters beat) ''Characters not specified'',
                  BeatData.sceneNumber =
                    num_or_else (scene_number beat) (Rep_safe_integer beatNumber),
                  BeatData.lastUpdated =
                    (if truthy_str (updated_at beat) then localeDate (template_str (updated_at beat))
                     else ''Unknown''),
                  BeatData.createdDate =
                    (if truthy_str (created_at beat) then localeDate (template_str (created_at beat))
                     else ''Creation date unknown'')\<rparr>;
               actTitle =
                 Some (or_else (beat_row.act_title beat)
                         (''Act '' @ number_toString (Rep_safe_integer actNumber)))
           in Inr \<lparr>status = 200,
                   headers = (''Content-Type'', ''text/html'') # corsHeaders,
                   body = generateBeatPage actNumber beatNumber beatData actTitle\<rparr>))"

definition beat_route ::
  "d1_database \<Rightarrow> (string \<Rightarrow> string) \<Rightarrow> safe_integer \<Rightarrow> safe_integer \<Rightarrow> response" where
  "beat_route db localeDate actNumber beatNumber =
     (case beat_route_try db localeDate actNumber beatNumber of
        Inr resp \<Rightarrow> resp
      | Inl error \<Rightarrow>
          (let actTitle = Some (''Act '' @ number_toString (Rep_safe_integer actNumber));
               beatData =
                 \<lparr>BeatData.title = ''Beat '' @ number_toString (Rep_safe_integer beatNumber),
                  BeatData.description =
                    ''Unable to load beat data due to a database error: '' @ message error
                    @ ''. Please try again later.'',
                  BeatData.conflict = ''Error'',
                  BeatData.emotion = ''Error'',
                  BeatData.location = ''Error'',
                  BeatData.timeOfDay = ''Error'',
                  BeatData.characters = ''Error'',
                  BeatData.sceneNumber = Rep_safe_integer beatNumber,
                  BeatData.lastUpdated = ''Error'',
                  BeatData.createdDate = ''Error''\<rparr>
           in \<lparr>status = 500,
               headers = (''Content-Type'', ''text/html'') # corsHeaders,
               body = generateBeatPage actNumber beatNumber beatData actTitle\<rparr>))"

section \<open>All-beats page\<close>

definition generatePageHeader :: "string \<Rightarrow> string \<Rightarrow> string \<Rightarrow> string" where
  \<open>generatePageHeader title' subtitle subtitleColor =
     ''\<newline>''
     @ ''    <div class="header">\<newline>''
     @ ''        <h1>''
     @ title'
     @ ''</h1>\<newline>''
     @ ''        <p class="subtitle" style="color: ''
     @ subtitleColor
     @ ''; font-weight: 600;">''
     @ subtitle
     @ ''</p>\<newline>''
     @ ''    </div>\<newline>''
     @ ''  ''\<close>

text \<open>
  \<^verbatim>\<open>beatsByAct\<close> is an object keyed by act number.  \<^verbatim>\<open>Object.entries\<close> lists first the
  keys that are array indices (the integers from \<open>0\<close> to \<open>2^32 - 2\<close>) in ascending
  order, then the other keys in the order of their insertion.
\<close>

definition is_array_index :: "int \<Rightarrow> bool" where
  "is_array_index n = (0 \<le> n \<and> n < 4294967295)"

definition object_entries :: "(int \<times> 'a) list \<Rightarrow> (int \<times> 'a) list" where
  "object_entries obj =
     sort_key fst (filter (\<lambda>kv. is_array_index (fst kv)) obj)
     @ filter (\<lambda>kv. \<not> is_array_index (fst kv)) obj"

definition add_to_act :: "(int \<times> ActBeats) list \<Rightarrow> beat_row \<Rightarrow> (int \<times> ActBeats) list" where
  "add_to_act beatsByAct beat =
     (let beatsByAct1 =
            (if map_of beatsByAct (beat_row.act_no beat) = None
             then beatsByAct @
                    [(beat_row.act_no beat,
                      \<lparr>ActBeats.title = beat_row.act_title beat, ActBeats.beats = []\<rparr>)]
             else beatsByAct)
      in modify (beat_row.act_no beat)
           (\<lambda>a. a\<lparr>ActBeats.beats := ActBeats.beats a @ [beat]\<rparr>) beatsByAct1)"

definition beat_card :: "string \<Rightarrow> ActBeats \<Rightarrow> beat_row \<Rightarrow> string" where
  \<open>beat_card actNo act beat =
     ''\<newline>''
     @ ''            <div class="beat-card">\<newline>''
     @ ''              <a href="/ally/act/''
     @ actNo
     @ ''/beat/''
     @ number_toString (beat_number beat)
     @ ''">\<newline>''
     @ ''                <h3>Beat ''
     @ number_toString (beat_number beat)
     @ '' ''
     @ (if truthy_num (scene_number beat)
        then ''(Scene '' @ template_num (scene_number beat) @ '')''
        else [])
     @ ''</h3>\<newline>''
     @ ''                <p>''
     @ (if truthy_str (BeatView.title beat) then template_str (BeatView.title beat)
        else ''Beat '' @ number_toString (beat_number beat) @ '' from '' @ template_str (ActBeats.title act))
     @ ''</p>\<newline>''
     @ ''              </a>\<newline>''
     @ ''            </div>\<newline>''
     @ ''          ''\<close>

definition act_cards :: "int \<times> ActBeats \<Rightarrow> string" where
  \<open>act_cards entry =
     (let actNo = number_toString (fst entry);
          act = snd entry
      in ''<div class="act-divider"><h2>''
     @ template_str (ActBeats.title act)
     @ ''</h2></div>''
         @ concat (map (beat_card actNo act) (ActBeats.beats act)))\<close>

text \<open>The value the \<^verbatim>\<open>try\<close> block gives its own variable \<^verbatim>\<open>allBeatCards\<close>.\<close>

definition all_beat_cards :: "beat_row list \<Rightarrow> string" where
  \<open>all_beat_cards results =
     (if length results = 0 then
        ''\<newline>''
        @ ''        <div class="no-content">\<newline>''
        @ ''          <h2>No Beats Found</h2>\<newline>''
        @ ''          <p>There are currently no beats in the database. Add some beats to see them here.</p>\<newline>''
        @ ''        </div>\<newline>''
        @ ''      ''
      else concat (map act_cards (object_entries (foldl add_to_act [] results))))\<close>

definition error_content :: string where
  \<open>error_content =
     ''\<newline>''
     @ ''      <div class="error-content">\<newline>''
     @ ''        <h2>Database Error</h2>\<newline>''
     @ ''        <p>Unable to load beats. Please try again later.</p>\<newline>''
     @ ''      </div>\<newline>''
     @ ''    ''\<close>

definition all_beats_page_head :: string where
  \<open>all_beats_page_head =
     ''<!DOCTYPE html>\<newline>''
   @ ''<html lang="en">\<newline>''
   @ ''<head>\<newline>''
   @ ''    <meta charset="UTF-8">\<newline>''
   @ ''    <meta name="viewport" content="width=device-width, initial-scale=1.0">\<newline>''
   @ ''    <title>ALLY - All Beats</title>\<newline>''
   @ ''    <style>\<newline>''
   @ ''        * {\<newline>''
   @ ''            margin: 0;\<newline>''
   @ ''            padding: 0;\<newline>''
   @ ''            box-sizing: border-box;\<newline>''
   @ ''        }\<newline>''
   @ ''\<newline>''
   @ ''        body {\<newline>''
   @ ''            font-family: -apple-system, BlinkMacSystemFont, \'Segoe UI\', Roboto, Oxygen, Ubuntu, Cantarell, sans-serif;\<newline>''
   @ ''            background: #0a0a0a;\<newline>''
   @ ''            min-height: 100vh;\<newline>''
   @ ''            color: #fff;\<newline>''
   @ ''            padding: 2rem;\<newline>''
   @ ''        }\<newline>''
   @ ''\<newline>''
   @ ''        .container {\<newline>''
   @ ''            max-width: 1200px;\<newline>''
   @ ''            margin: 0 auto;\<newline>''
   @ ''        }\<newline>''
   @ ''\<newline>''
   @ ''        .header {\<newline>''
   @ ''            text-align: center;\<newline>''
   @ ''            margin-bottom: 3rem;\<newline>''
   @ ''            padding-bottom: 2rem;\<newline>''
   @ ''            border-bottom: 1px solid #333;\<newline>''
   @ ''        }\<newline>''
   @ ''\<newline>''
   @ ''        .header h1 {\<newline>''
   @ ''            font-size: 3rem;\<newline>''
   @ ''            font-weight: 300;\<newline>''
   @ ''            margin-bottom: 1rem;\<newline>''
   @ ''            font-family: Georgia, \'Times New Roman\', serif;\<newline>''
   @ ''            letter-spacing: 2px;\<newline>''
   @ ''        }\<newline>''
   @ ''\<newline>''
   @ ''        .header .subtitle {\<newline>''
   @ ''            font-size: 1.2rem;\<newline>''
   @ ''            color: #888;\<newline>''
   @ ''        }\<newline>''
   @ ''\<newline>''
   @ ''        .nav {\<newline>''
   @ ''            margin-bottom: 2rem;\<newline>''
   @ ''        }\<newline>''
   @ ''\<newline>''
   @ ''        .nav a {\<newline>''
   @ ''            color: #fff;\<newline>''
   @ ''            text-decoration: none;\<newline>''
   @ ''            font-size: 1rem;\<newline>''
   @ ''            padding: 0.5rem 1rem;\<newline>''
   @ ''            border-radius: 4px;\<newline>''
   @ ''            transition: background 0.2s;\<newline>''
   @ ''        }\<newline>''
   @ ''\<newline>''
   @ ''        .nav a:hover {\<newline>''
   @ ''            background: #333;\<newline>''
   @ ''        }\<newline>''
   @ ''\<newline>''
   @ ''        .act-divider {\<newline>''
   @ ''            margin: 3rem 0 2rem 0;\<newline>''
   @ ''            text-align: center;\<newline>''
   @ ''            border-top: 2px solid #333;\<newline>''
   @ ''            padding-top: 2rem;\<newline>''
   @ ''        }\<newline>''
   @ ''\<newline>''
   @ ''        .act-divider:first-of-type {\<newline>''
   @ ''            margin-top: 0;\<newline>''
   @ ''            border-top: none;\<newline>''
   @ ''            padding-top: 0;\<newline>''
   @ ''        }\<newline>''
   @ ''\<newline>''
   @ ''        .act-divider h2 {\<newline>''
   @ ''            font-size: 1.8rem;\<newline>''
   @ ''            color: #667eea;\<newline>''
   @ ''            font-weight: 600;\<newline>''
   @ ''            margin-bottom: 1rem;\<newline>''
   @ ''        }\<newline>''
   @ ''\<newline>''
   @ ''        .beats-grid {\<newline>''
   @ ''            display: grid;\<newline>''
   @ ''            grid-template-columns: repeat(auto-fit, minmax(300px, 1fr));\<newline>''
   @ ''            gap: 2rem;\<newline>''
   @ ''            margin-bottom: 2rem;\<newline>''
   @ ''        }\<newline>''
   @ ''\<newline>''
   @ ''        .beat-card {\<newline>''
   @ ''            background: #111;\<newline>''
   @ ''            border: 1px solid #333;\<newline>''
   @ ''            border-radius: 8px;\<newline>''
   @ ''            padding: 2rem;\<newline>''
   @ ''            transition: border-color 0.2s;\<newline>''
   @ ''        }\<newline>''
   @ ''\<newline>''
   @ ''        .beat-card:hover {\<newline>''
   @ ''            border-color: #555;\<newline>''
   @ ''        }\<newline>''
   @ ''\<newline>''
   @ ''        .beat-card h3 {\<newline>''
   @ ''            font-size: 1.5rem;\<newline>''
   @ ''            margin-bottom: 1rem;\<newline>''
   @ ''            color: #fff;\<newline>''
   @ ''        }\<newline>''
   @ ''\<newline>''
   @ ''        .beat-card p {\<newline>''
   @ ''            color: #ccc;\<newline>''
   @ ''            line-height: 1.6;\<newline>''
   @ ''        }\<newline>''
   @ ''\<newline>''
   @ ''        .beat-card a {\<newline>''
   @ ''            color: inherit;\<newline>''
   @ ''            text-decoration: none;\<newline>''
   @ ''        }\<newline>''
   @ ''\<newline>''
   @ ''        @media (max-width: 768px) {\<newline>''
   @ ''            .header h1 {\<newline>''
   @ ''                font-size: 2rem;\<newline>''
   @ ''            }\<newline>''
   @ ''            \<newline>''
   @ ''            .beats-grid {\<newline>''
   @ ''                grid-template-columns: 1fr;\<newline>''
   @ ''            }\<newline>''
   @ ''        }\<newline>''
   @ ''    </style>\<newline>''
   @ ''</head>\<newline>''
   @ ''<body>\<newline>''
   @ ''    <div class="container">\<newline>''
   @ ''        ''\<close>

definition all_beats_html :: "string \<Rightarrow> string" where
  \<open>all_beats_html allBeatCards =
     all_beats_page_head
     @ generatePageHeader ''ALLY'' ''All Beats - Complete Beat Sheet Overview'' ''#888''
     @ ''\<newline>''
     @ ''        \<newline>''
     @ ''        <div class="nav">\<newline>''
     @ ''            <a href="/ally">&larr; Back to Acts</a>\<newline>''
     @ ''        </div>\<newline>''
     @ ''\<newline>''
     @ ''        <div class="beats-grid">\<newline>''
     @ ''            ''
     @ allBeatCards
     @ ''\<newline>''
     @ ''        </div>\<newline>''
     @ ''    </div>\<newline>''
     @ ''</body>\<newline>''
     @ ''</html>''\<close>

text \<open>
  Variables.  A scope maps the names declared in it to their values; the environment of
  a statement is the list of the scopes around it, innermost first.  A block opens a
  scope of its own and closes it at its end.  The worker is an ES module, so its code
  runs in strict mode: reading a name that no enclosing scope declares raises a
  \<^verbatim>\<open>ReferenceError\<close>, and so does assigning to one.
\<close>

type_synonym scope = "string \<rightharpoonup> string"

definition enter_block :: "scope list \<Rightarrow> scope list" where
  "enter_block env = Map.empty # env"

definition exit_block :: "scope list \<Rightarrow> scope list" where
  "exit_block env = tl env"

fun declare_var :: "scope list \<Rightarrow> string \<Rightarrow> string \<Rightarrow> scope list" where
  "declare_var [] x v = [[x \<mapsto> v]]"
| "declare_var (sc # env) x v = sc(x \<mapsto> v) # env"

fun read_var :: "scope list \<Rightarrow> string \<Rightarrow> js_error + string" where
  "read_var [] x = Inl (ReferenceError (x @ '' is not defined''))"
| "read_var (sc # env) x = (case sc x of Some v \<Rightarrow> Inr v | None \<Rightarrow> read_var env x)"

fun assign_var :: "scope list \<Rightarrow> string \<Rightarrow> string \<Rightarrow> js_error + scope list" where
  "assign_var [] x v = Inl (ReferenceError (x @ '' is not defined''))"
| "assign_var (sc # env) x v =
     (case sc x of
        Some _ \<Rightarrow> Inr (sc(x \<mapsto> v) # env)
      | None \<Rightarrow>
          (case assign_var env x v of
             Inl error \<Rightarrow> Inl error
           | Inr env' \<Rightarrow> Inr (sc # env')))"

text \<open>
  \<^verbatim>\<open>generateAllBeatsPage(env, corsHeaders)\<close>.  The environment tracks the function's
  string variables.  The scope of the function body declares no \<^verbatim>\<open>allBeatCards\<close>, and
  neither does the module around it: \<^verbatim>\<open>let allBeatCards\<close> stands inside the \<^verbatim>\<open>try\<close>
  block, after the query.  First the \<^verbatim>\<open>try\<close> block, then the \<^verbatim>\<open>catch\<close> block, then
  the whole function, whose template reads \<^verbatim>\<open>allBeatCards\<close> after both blocks.
\<close>

definition all_beats_try :: "d1_database \<Rightarrow> scope list \<Rightarrow> js_error + scope list" where
  \<open>all_beats_try db env =
     (let block = enter_block env
      in case all_beats db of
           Inl error \<Rightarrow> Inl error
         | Inr results \<Rightarrow>
             (let block1 = declare_var block ''allBeatCards'' []
              in case assign_var block1 ''allBeatCards'' (all_beat_cards results) of
                   Inl error \<Rightarrow> Inl error
                 | Inr block2 \<Rightarrow> Inr (exit_block block2)))\<close>

definition all_beats_catch :: "scope list \<Rightarrow> js_error + scope list" where
  \<open>all_beats_catch env =
     (let block = enter_block env
      in case assign_var block ''allBeatCards'' error_content of
           Inl error \<Rightarrow> Inl error
         | Inr block1 \<Rightarrow> Inr (exit_block block1))\<close>

definition generateAllBeatsPage :: "d1_database \<Rightarrow> js_error + response" where
  \<open>generateAllBeatsPage db =
     (let function_scope = [Map.empty];
          after_try =
            (case all_beats_try db function_scope of
               Inr env \<Rightarrow> Inr env
             | Inl error \<Rightarrow> all_beats_catch function_scope)
      in case after_try of
           Inl error \<Rightarrow> Inl error
         | Inr env \<Rightarrow>
             (case read_var env ''allBeatCards'' of
                Inl error \<Rightarrow> Inl error
              | Inr allBeatCards \<Rightarrow>
                  Inr \<lparr>status = 200,
                       headers = (''Content-Type'', ''text/html'') # corsHeaders,
                       body = all_beats_html allBeatCards\<rparr>))\<close>

text \<open>
  The worker's \<^verbatim>\<open>fetch\<close>: whatever \<^verbatim>\<open>handleRequest\<close> raises becomes a JSON response of
  status 500.  \<^verbatim>\<open>handleRequest\<close> passes an authenticated request for
  \<^verbatim>\<open>/ally/beats/all\<close> to \<^verbatim>\<open>generateAllBeatsPage\<close> and returns what it returns.
\<close>

definition fetch_catch :: "js_error + response \<Rightarrow> response" where
  "fetch_catch outcome =
     (case outcome of
        Inr resp \<Rightarrow> resp
      | Inl error \<Rightarrow>
          jsonResponse
            (JObj [(''error'', JStr ''Internal server error''),
                   (''message'', JStr (message error))])
            500 [])"

definition fetch_all_beats :: "d1_database \<Rightarrow> response" where
  "fetch_all_beats db = fetch_catch (generateAllBeatsPage db)"

section \<open>Notions used in the statements\<close>

text \<open>
  The order of the aggregation query, \<^verbatim>\<open>ORDER BY a.act_no, b.beat_number\<close>, and its
  strict part.
\<close>

definition row_le :: "beat_row \<Rightarrow> beat_row \<Rightarrow> bool" where
  "row_le r s \<longleftrightarrow>
     beat_row.act_no r < beat_row.act_no s
     \<or> (beat_row.act_no r = beat_row.act_no s \<and> beat_number r \<le> beat_number s)"

definition row_lt :: "beat_row \<Rightarrow> beat_row \<Rightarrow> bool" where
  "row_lt r s \<longleftrightarrow>
     beat_row.act_no r < beat_row.act_no s
     \<or> (beat_row.act_no r = beat_row.act_no s \<and> beat_number r < beat_number s)"

text \<open>Invariants of the grouping loop.\<close>

definition group_ok :: "(string \<times> ActGroup) list \<times> nat \<Rightarrow> bool" where
  "group_ok st \<longleftrightarrow>
     distinct (map fst (fst st)) \<and>
     list_all (\<lambda>kv. ActGroup.beat_count (snd kv) = length (ActGroup.beats (snd kv))) (fst st) \<and>
     sum_list (map (ActGroup.beat_count \<circ> snd) (fst st)) = snd st"

definition group_below :: "beat_row \<Rightarrow> string \<times> ActGroup \<Rightarrow> bool" where
  "group_below r kv \<longleftrightarrow>
     ActGroup.act_no (snd kv) < beat_row.act_no r
     \<or> (ActGroup.act_no (snd kv) = beat_row.act_no r
        \<and> list_all (\<lambda>b. beat_number b < beat_number r) (ActGroup.beats (snd kv)))"

definition group_sorted :: "string \<times> ActGroup \<Rightarrow> bool" where
  "group_sorted kv \<longleftrightarrow>
     fst kv = ''Act '' @ number_toString (ActGroup.act_no (snd kv))
     \<and> sorted_wrt (<) (map beat_number (ActGroup.beats (snd kv)))"



text \<open>
  A value with, possibly, an empty string or a zero replaced by \<^verbatim>\<open>null\<close>; a beat, an
  act group and a report with such replacements in any of the beats' nullable fields.
\<close>

definition nulled_str :: "string option \<Rightarrow> string option \<Rightarrow> bool" where
  "nulled_str v v' \<longleftrightarrow> v' = v \<or> (v = Some [] \<and> v' = None)"

definition nulled_num :: "int option \<Rightarrow> int option \<Rightarrow> bool" where
  "nulled_num v v' \<longleftrightarrow> v' = v \<or> (v = Some 0 \<and> v' = None)"

definition nulled_beat :: "BeatView \<Rightarrow> BeatView \<Rightarrow> bool" where
  "nulled_beat b b' \<longleftrightarrow>
     beat_number b' = beat_number b
     \<and> nulled_num (scene_number b) (scene_number b')
     \<and> nulled_str (BeatView.title b) (BeatView.title b')
     \<and> nulled_str (BeatView.description b) (BeatView.description b')
     \<and> nulled_str (BeatView.conflict b) (BeatView.conflict b')
     \<and> nulled_str (BeatView.emotion b) (BeatView.emotion b')
     \<and> nulled_str (BeatView.location b) (BeatView.location b')
     \<and> nulled_str (time_of_day b) (time_of_day b')
     \<and> nulled_str (BeatView.characters b) (BeatView.characters b')
     \<and> nulled_num (version b) (version b')
     \<and> nulled_str (created_at b) (created_at b')
     \<and> nulled_str (updated_at b) (updated_at b')"

definition nulled_act :: "ActGroup \<Rightarrow> ActGroup \<Rightarrow> bool" where
  "nulled_act a a' \<longleftrightarrow>
     ActGroup.act_no a' = ActGroup.act_no a
     \<and> ActGroup.act_id a' = ActGroup.act_id a
     \<and> ActGroup.act_title a' = ActGroup.act_title a
     \<and> ActGroup.beat_count a' = ActGroup.beat_count a
     \<and> list_all2 nulled_beat (ActGroup.beats a) (ActGroup.beats a')"

definition nulled_report :: "Report \<Rightarrow> Report \<Rightarrow> bool" where
  "nulled_report r r' \<longleftrightarrow>
     report_type r' = report_type r
     \<and> generated_at r' = generated_at r
     \<and> summary r' = summary r
     \<and> list_all2 nulled_act (acts r) (acts r')"

text \<open>
  A beat none of whose texts holds the character \<^verbatim>\<open><\<close>, and a beat one of whose texts
  holds the word \<open>w\<close>.  An absent text counts as empty.
\<close>

definition markup_free :: "BeatView \<Rightarrow> bool" where
  "markup_free b \<longleftrightarrow>
     CHR ''<'' \<notin> set (or_else (BeatView.title b) [])
     \<and> CHR ''<'' \<notin> set (or_else (BeatView.description b) [])
     \<and> CHR ''<'' \<notin> set (or_else (BeatView.conflict b) [])
     \<and> CHR ''<'' \<notin> set (or_else (BeatView.emotion b) [])
     \<and> CHR ''<'' \<notin> set (or_else (BeatView.location b) [])
     \<and> CHR ''<'' \<notin> set (or_else (time_of_day b) [])
     \<and> CHR ''<'' \<notin> set (or_else (BeatView.characters b) [])"

definition mentions :: "BeatView \<Rightarrow> string \<Rightarrow> bool" where
  "mentions b w \<longleftrightarrow>
     str_includes (or_else (BeatView.title b) []) w
     \<or> str_includes (or_else (BeatView.description b) []) w
     \<or> str_includes (or_else (BeatView.conflict b) []) w
     \<or> str_includes (or_else (BeatView.emotion b) []) w
     \<or> str_includes (or_else (BeatView.location b) []) w
     \<or> str_includes (or_else (time_of_day b) []) w
     \<or> str_includes (or_else (BeatView.characters b) []) w"

section \<open>Example data\<close>

text \<open>
  Two acts, the first with beats 1 and 2, the second with beat 1.  The description holds
  a comma and double quotes, the conflict is absent and the emotion is the empty string.
\<close>

definition example_beat :: beat_row where
  "example_beat =
     \<lparr>beat_number = 1,
      scene_number = Some 3,
      BeatView.title = Some ''Opening'',
      BeatView.description = Some (''He said, '' @ [CHR 0x22] @ ''go now'' @ [CHR 0x22]),
      BeatView.conflict = None,
      BeatView.emotion = Some [],
      BeatView.location = Some ''Rome'',
      time_of_day = None,
      BeatView.characters = None,
      version = Some 1,
      created_at = Some ''2024-01-01 10:00:00'',
      updated_at = None,
      id = 10,
      beat_row.act_id = 7,
      beat_row.act_no = 1,
      beat_row.act_title = Some ''Setup''\<rparr>"

definition example_rows :: "beat_row list" where
  "example_rows =
     [example_beat,
      example_beat\<lparr>beat_number := 2, id := 11\<rparr>,
      example_beat\<lparr>id := 12, beat_row.act_id := 8, beat_row.act_no := 2,
                   beat_row.act_title := Some ''Confrontation''\<rparr>]"

text \<open>A store that answers every query, and one whose every query raises.\<close>

definition example_db :: d1_database where
  "example_db =
     \<lparr>report_beats = Inr example_rows,
      beat_first = (\<lambda>actNumber beatNumber.
        Inr (find (\<lambda>r. beat_row.act_no r = actNumber \<and> beat_number r = beatNumber) example_rows)),
      act_first = (\<lambda>actNumber.
        Inr (map_option (\<lambda>r. \<lparr>act_row.title = beat_row.act_title r\<rparr>)
               (find (\<lambda>r. beat_row.act_no r = actNumber) example_rows))),
      all_beats = Inr example_rows\<rparr>"

definition failing_db :: d1_database where
  "failing_db =
     \<lparr>report_beats = Inl (Error ''D1_ERROR: no such table: beats''),
      beat_first = (\<lambda>actNumber beatNumber. Inl (Error ''D1_ERROR: no such table: beats'')),
      act_first = (\<lambda>actNumber. Inl (Error ''D1_ERROR: no such table: acts'')),
      all_beats = Inl (Error ''D1_ERROR: no such table: beats'')\<rparr>"

definition example_act :: ActGroup where
  "example_act =
     \<lparr>ActGroup.act_no = 1, ActGroup.act_id = 7, ActGroup.act_title = Some ''Setup'',
      ActGroup.beats = [beat_view example_beat], ActGroup.beat_count = 1\<rparr>"


definition example_report :: Report where
  "example_report =
     \<lparr>report_type = ''beats_by_act'',
      generated_at = ''2024-01-01T00:00:00.000Z'',
      summary =
        \<lparr>total_acts = 1,
         total_beats = 1,
         beats_per_act =
           [\<lparr>ActCount.act_no = 1, ActCount.act_title = Some ''Setup'',
             ActCount.beat_count = 1\<rparr>]\<rparr>,
      acts = [example_act]\<rparr>"

text \<open>The same report with the empty emotion replaced by \<^verbatim>\<open>null\<close>.\<close>

definition nulled_example_report :: Report where
  "nulled_example_report =
     example_report
       \<lparr>acts := [example_act
                   \<lparr>ActGroup.beats := [(beat_view example_beat)\<lparr>BeatView.emotion := None\<rparr>]\<rparr>]\<rparr>"

text \<open>A report whose beat has markup in its title.\<close>

definition script_beat :: BeatView where
  "script_beat = (beat_view example_beat)\<lparr>BeatView.title := Some ''<script>alert(1)</script>''\<rparr>"

definition script_report :: Report where
  "script_report = example_report\<lparr>acts := [example_act\<lparr>ActGroup.beats := [script_beat]\<rparr>]\<rparr>"


section \<open>Properties of the aggregator\<close>

subsection \<open>Objects as association lists\<close>

lemma map_fst_modify: "map fst (modify k f obj) = map fst obj"
  by (induction obj) (auto simp: modify_def)

lemma modify_append: "modify k f (xs @ ys) = modify k f xs @ modify k f ys"
  by (simp add: modify_def)

lemma modify_absent: "k \<notin> fst ` set obj \<Longrightarrow> modify k f obj = obj"
  by (induction obj) (auto simp: modify_def)

lemma modify_modify: "modify k f (modify k g obj) = modify k (f \<circ> g) obj"
  by (induction obj) (auto simp: modify_def)

lemma map_of_None_iff: "map_of obj k = None \<longleftrightarrow> k \<notin> fst ` set obj"
  by (simp add: map_of_eq_None_iff)

lemma sum_modify_count:
  assumes "distinct (map fst obj)" and "k \<in> fst ` set obj"
    and "\<And>g. ActGroup.beat_count (f g) = Suc (ActGroup.beat_count g)"
  shows "sum_list (map (ActGroup.beat_count \<circ> snd) (modify k f obj))
         = Suc (sum_list (map (ActGroup.beat_count \<circ> snd) obj))"
  using assms(1,2)
proof (induction obj)
  case Nil
  then show ?case by simp
next
  case (Cons kv obj)
  show ?case
  proof (cases "fst kv = k")
    case True
    with Cons.prems have "k \<notin> fst ` set obj" by auto
    then have "modify k f obj = obj" by (rule modify_absent)
    with True show ?thesis by (simp add: modify_def assms(3))
  next
    case False
    with Cons.prems have "k \<in> fst ` set obj" and "distinct (map fst obj)" by auto
    with Cons.IH False show ?thesis by (simp add: modify_def)
  qed
qed

lemma add_beat_keys:
  "map fst (fst (add_beat st beat)) =
     (if actKey beat \<in> set (map fst (fst st)) then map fst (fst st)
      else map fst (fst st) @ [actKey beat])"
  by (auto simp: add_beat_def Let_def map_fst_modify map_of_eq_None_iff)

lemma list_all_modify:
  "list_all P obj \<Longrightarrow> (\<And>kv. P kv \<Longrightarrow> fst kv = k \<Longrightarrow> P (fst kv, f (snd kv)))
   \<Longrightarrow> list_all P (modify k f obj)"
  by (induction obj) (auto simp: modify_def)

lemma add_beat_ok:
  assumes "group_ok st"
  shows "group_ok (add_beat st beat)"
proof -
  let ?k = "actKey beat"
  let ?f = "(\<lambda>g. g\<lparr>ActGroup.beat_count := ActGroup.beat_count g + 1\<rparr>) \<circ>
            (\<lambda>g. g\<lparr>ActGroup.beats := ActGroup.beats g @ [beat_view beat]\<rparr>)"
  let ?new = "\<lparr>ActGroup.act_no = beat_row.act_no beat, ActGroup.act_id = beat_row.act_id beat,
               ActGroup.act_title = beat_row.act_title beat, ActGroup.beats = [],
               ActGroup.beat_count = 0\<rparr>"
  let ?rd1 = "if map_of (fst st) ?k = None then fst st @ [(?k, ?new)] else fst st"
  have eq: "add_beat st beat = (modify ?k ?f ?rd1, snd st + 1)"
    by (simp add: add_beat_def Let_def modify_modify)
  from assms have d: "distinct (map fst (fst st))"
    and a: "list_all (\<lambda>kv. ActGroup.beat_count (snd kv) = length (ActGroup.beats (snd kv))) (fst st)"
    and s: "sum_list (map (ActGroup.beat_count \<circ> snd) (fst st)) = snd st"
    by (simp_all add: group_ok_def)
  have d1: "distinct (map fst ?rd1)"
    using d by (auto simp: map_of_eq_None_iff)
  have k1: "?k \<in> fst ` set ?rd1"
    by (auto simp: map_of_eq_None_iff)
  have a1: "list_all (\<lambda>kv. ActGroup.beat_count (snd kv) = length (ActGroup.beats (snd kv))) ?rd1"
    using a by simp
  have s1: "sum_list (map (ActGroup.beat_count \<circ> snd) ?rd1) = snd st"
    using s by simp
  have "sum_list (map (ActGroup.beat_count \<circ> snd) (modify ?k ?f ?rd1)) = Suc (snd st)"
    using sum_modify_count [OF d1 k1, of ?f] s1 by simp
  moreover have "list_all (\<lambda>kv. ActGroup.beat_count (snd kv) = length (ActGroup.beats (snd kv)))
                   (modify ?k ?f ?rd1)"
    by (rule list_all_modify [OF a1]) simp
  moreover have "distinct (map fst (modify ?k ?f ?rd1))"
    using d1 by (simp only: map_fst_modify)
  ultimately show ?thesis
    unfolding eq group_ok_def by simp
qed

lemma foldl_add_beat_ok:
  "group_ok st \<Longrightarrow> group_ok (foldl add_beat st results)"
  by (induction results arbitrary: st) (simp_all add: add_beat_ok)

lemma snd_add_beat: "snd (add_beat st beat) = snd st + 1"
  by (simp add: add_beat_def Let_def)

lemma snd_foldl_add_beat: "snd (foldl add_beat st results) = snd st + length results"
  by (induction results arbitrary: st) (simp_all add: snd_add_beat)

lemma group_by_act_ok: "group_ok (group_by_act results)"
  unfolding group_by_act_def by (rule foldl_add_beat_ok) (simp add: group_ok_def)


text \<open>
  C1.  Whatever rows the aggregation query returns, the report built by
  \<^verbatim>\<open>generateBeatReport\<close> has \<open>total_beats\<close> equal to the sum of the groups'
  \<open>beat_count\<close> and to the number of rows, every group's \<open>beat_count\<close> equal to the
  length of its \<open>beats\<close>, and \<open>total_acts\<close> equal to the number of groups; for no
  rows there are no groups and both totals are \<open>0\<close>.
\<close>

theorem report_counts:
  assumes "report_beats db = Inr results"
  shows "generateBeatReport db now today ''json''
           = Inr (ReportObject (build_report now results))
   \<and> total_beats (summary (build_report now results))
       = sum_list (map ActGroup.beat_count (acts (build_report now results)))
   \<and> sum_list (map ActGroup.beat_count (acts (build_report now results))) = length results
   \<and> map ActGroup.beat_count (acts (build_report now results))
       = map (\<lambda>g. length (ActGroup.beats g)) (acts (build_report now results))
   \<and> total_acts (summary (build_report now results)) = length (acts (build_report now results))
   \<and> acts (build_report now []) = []
   \<and> total_acts (summary (build_report now [])) = 0
   \<and> total_beats (summary (build_report now [])) = 0"
proof -
  have ok: "group_ok (group_by_act results)" by (rule group_by_act_ok)
  have n: "snd (group_by_act results) = length results"
    by (simp add: group_by_act_def snd_foldl_add_beat)
  have e: "group_by_act [] = ([], 0)" by (simp add: group_by_act_def)
  from ok have s: "sum_list (map (ActGroup.beat_count \<circ> snd) (fst (group_by_act results)))
                   = snd (group_by_act results)"
    and a: "list_all (\<lambda>kv. ActGroup.beat_count (snd kv) = length (ActGroup.beats (snd kv)))
              (fst (group_by_act results))"
    by (simp_all add: group_ok_def)
  from a have m: "map (ActGroup.beat_count \<circ> snd) (fst (group_by_act results))
                = map ((\<lambda>g. length (ActGroup.beats g)) \<circ> snd) (fst (group_by_act results))"
    by (simp add: list_all_iff)
  have g: "generateBeatReport db now today ''json''
             = Inr (ReportObject (build_report now results))"
    using assms by (simp add: generateBeatReport_def)
  show ?thesis
    using s n m g by (simp add: build_report_def Let_def e comp_def)
qed

theorem report_counts_witness:
  "report_beats example_db = Inr example_rows
   \<and> generateBeatReport example_db ''2024-01-01T00:00:00.000Z'' ''Monday, January 1, 2024'' ''json''
       = Inr (ReportObject (build_report ''2024-01-01T00:00:00.000Z'' example_rows))
   \<and> total_beats (summary (build_report ''2024-01-01T00:00:00.000Z'' example_rows)) = 3"
proof -
  have h: "report_beats example_db = Inr example_rows" by (simp add: example_db_def)
  have l: "length example_rows = 3" by (simp add: example_rows_def)
  from report_counts [OF h, of "''2024-01-01T00:00:00.000Z''" "''Monday, January 1, 2024''"] h l
  show ?thesis by simp
qed

subsection \<open>Decimal text of a number\<close>

lemma digit_char_inj:
  assumes "a < 10" "b < 10" "digit_char a = digit_char b"
  shows "a = b"
proof -
  have A: "a \<in> {0,1,2,3,4,5,6,7,8,9}" using assms(1) by auto
  have B: "b \<in> {0,1,2,3,4,5,6,7,8,9}" using assms(2) by auto
  from A B assms(3) show ?thesis
    by (auto simp: digit_char_def)
qed

lemma digit_char_set: "d < 10 \<Longrightarrow> digit_char d \<in> set ''0123456789''"
  unfolding digit_char_def by (rule nth_mem) simp

lemma string_of_nat_nonempty: "string_of_nat n \<noteq> []"
  by (subst string_of_nat.simps) simp

lemma string_of_nat_digits: "set (string_of_nat n) \<subseteq> set ''0123456789''"
proof (induction n rule: string_of_nat.induct)
  case (1 n)
  show ?case
  proof (cases "n < 10")
    case True
    then show ?thesis
      using digit_char_set [of n] by (subst string_of_nat.simps) simp
  next
    case False
    have "n mod 10 < 10" by simp
    from digit_char_set [OF this] 1 [OF False] False show ?thesis
      by (subst string_of_nat.simps) simp
  qed
qed

lemma string_of_nat_inj: "string_of_nat m = string_of_nat n \<Longrightarrow> m = n"
proof (induction m arbitrary: n rule: string_of_nat.induct)
  case (1 m)
  show ?case
  proof (cases "m < 10")
    case m: True
    show ?thesis
    proof (cases "n < 10")
      case True
      with m "1.prems" show ?thesis
        by (simp add: string_of_nat.simps [of m] string_of_nat.simps [of n] digit_char_inj)
    next
      case False
      with m "1.prems" have "string_of_nat (n div 10) = []"
        by (simp add: string_of_nat.simps [of m] string_of_nat.simps [of n])
      then show ?thesis by (simp add: string_of_nat_nonempty)
    qed
  next
    case m: False
    show ?thesis
    proof (cases "n < 10")
      case True
      with m "1.prems" have "string_of_nat (m div 10) = []"
        by (simp add: string_of_nat.simps [of m] string_of_nat.simps [of n])
      then show ?thesis by (simp add: string_of_nat_nonempty)
    next
      case False
      with m "1.prems" have e: "string_of_nat (m div 10) = string_of_nat (n div 10)"
        and d: "digit_char (m mod 10) = digit_char (n mod 10)"
        by (simp_all add: string_of_nat.simps [of m] string_of_nat.simps [of n])
      from "1.IH" [OF m e] have "m div 10 = n div 10" .
      moreover from d have "m mod 10 = n mod 10" by (rule digit_char_inj [rotated 2]) simp_all
      ultimately show ?thesis by (metis div_mult_mod_eq)
    qed
  qed
qed

lemma number_toString_inj: "number_toString i = number_toString j \<Longrightarrow> i = j"
proof -
  assume e: "number_toString i = number_toString j"
  have nd: "\<And>n s. CHR ''-'' # s \<noteq> string_of_nat n"
  proof
    fix n s assume "CHR ''-'' # s = string_of_nat n"
    then have "CHR ''-'' \<in> set (string_of_nat n)" by (metis list.set_intros(1))
    with string_of_nat_digits [of n] show False by auto
  qed
  show ?thesis
  proof (cases "i < 0"; cases "j < 0")
    assume "i < 0" "j < 0"
    with e have "nat (- i) = nat (- j)" by (simp add: number_toString_def string_of_nat_inj)
    with \<open>i < 0\<close> \<open>j < 0\<close> show ?thesis by simp
  next
    assume "i < 0" "\<not> j < 0"
    with e nd show ?thesis by (simp add: number_toString_def)
  next
    assume "\<not> i < 0" "j < 0"
    with e nd [of "string_of_nat (nat (- j))" "nat i"] show ?thesis
      by (simp add: number_toString_def)
  next
    assume "\<not> i < 0" "\<not> j < 0"
    with e have "nat i = nat j" by (simp add: number_toString_def string_of_nat_inj)
    with \<open>\<not> i < 0\<close> \<open>\<not> j < 0\<close> show ?thesis by simp
  qed
qed

lemma actKey_eq_iff: "actKey a = actKey b \<longleftrightarrow> beat_row.act_no a = beat_row.act_no b"
  by (auto simp: actKey_def dest: number_toString_inj)


subsection \<open>Order of the groups\<close>

lemma strict_rows:
  "sorted_wrt row_le rows \<Longrightarrow> distinct (map (\<lambda>r. (beat_row.act_no r, beat_number r)) rows)
   \<Longrightarrow> sorted_wrt row_lt rows"
proof (induction rows)
  case Nil
  then show ?case by simp
next
  case (Cons r rows)
  have "row_lt r s" if "s \<in> set rows" for s
  proof -
    from Cons.prems(1) that have "row_le r s" by simp
    moreover from Cons.prems(2) that
    have "(beat_row.act_no r, beat_number r) \<noteq> (beat_row.act_no s, beat_number s)" by auto
    ultimately show ?thesis by (auto simp: row_le_def row_lt_def)
  qed
  with Cons show ?case by simp
qed

lemma key_of_group:
  "group_sorted kv \<Longrightarrow> (fst kv = actKey r) = (ActGroup.act_no (snd kv) = beat_row.act_no r)"
  by (auto simp: group_sorted_def actKey_def dest: number_toString_inj)

lemma beat_view_number [simp]: "beat_number (beat_view r) = beat_number r"
  by (simp add: beat_view_def)

lemma sorted_wrt_snoc:
  "sorted_wrt P (xs @ [x]) \<longleftrightarrow> sorted_wrt P xs \<and> (\<forall>y\<in>set xs. P y x)"
  by (simp add: sorted_wrt_append)

lemma modify_mem:
  "x \<in> set (modify k f obj)
   \<Longrightarrow> \<exists>kv\<in>set obj. x = (if fst kv = k then (fst kv, f (snd kv)) else kv)"
  by (auto simp: modify_def)

lemma add_beat_sorted:
  assumes gs: "list_all group_sorted (fst st)"
    and so: "sorted_wrt (<) (map (ActGroup.act_no \<circ> snd) (fst st))"
    and be: "list_all (group_below r) (fst st)"
  shows "list_all group_sorted (fst (add_beat st r))"
    and "sorted_wrt (<) (map (ActGroup.act_no \<circ> snd) (fst (add_beat st r)))"
    and "row_lt r s \<Longrightarrow> list_all (group_below s) (fst st)
         \<Longrightarrow> list_all (group_below s) (fst (add_beat st r))"
proof -
  let ?k = "actKey r"
  let ?f = "(\<lambda>g. g\<lparr>ActGroup.beat_count := ActGroup.beat_count g + 1\<rparr>) \<circ>
            (\<lambda>g. g\<lparr>ActGroup.beats := ActGroup.beats g @ [beat_view r]\<rparr>)"
  let ?new = "\<lparr>ActGroup.act_no = beat_row.act_no r, ActGroup.act_id = beat_row.act_id r,
               ActGroup.act_title = beat_row.act_title r, ActGroup.beats = [],
               ActGroup.beat_count = 0\<rparr>"
  let ?rd1 = "if map_of (fst st) ?k = None then fst st @ [(?k, ?new)] else fst st"
  have eq: "fst (add_beat st r) = modify ?k ?f ?rd1"
    by (simp add: add_beat_def Let_def modify_modify)
  have gs1: "list_all group_sorted ?rd1"
    using gs by (simp add: group_sorted_def actKey_def)
  have be1: "list_all (group_below r) ?rd1"
    using be by (simp add: group_below_def)
  have no1: "map (ActGroup.act_no \<circ> snd) (modify ?k ?f ?rd1) = map (ActGroup.act_no \<circ> snd) ?rd1"
    by (simp add: modify_def comp_def)
  have lt: "ActGroup.act_no (snd kv) < beat_row.act_no r"
    if "kv \<in> set (fst st)" "map_of (fst st) ?k = None" for kv
  proof -
    from that have "fst kv \<noteq> ?k" by (force simp: map_of_eq_None_iff)
    moreover from gs that(1) have "group_sorted kv" by (simp add: list_all_iff)
    ultimately have "ActGroup.act_no (snd kv) \<noteq> beat_row.act_no r"
      by (simp add: key_of_group)
    moreover from be that(1) have "group_below r kv" by (simp add: list_all_iff)
    ultimately show ?thesis by (auto simp: group_below_def)
  qed
  have so1: "sorted_wrt (<) (map (ActGroup.act_no \<circ> snd) ?rd1)"
    using so lt by (auto simp: sorted_wrt_append)
  note mem = modify_mem [of _ ?k ?f ?rd1]
  show "list_all group_sorted (fst (add_beat st r))"
    unfolding eq list_all_iff
  proof
    fix x assume "x \<in> set (modify ?k ?f ?rd1)"
    from mem [OF this] obtain kv where kv: "kv \<in> set ?rd1"
      and x: "x = (if fst kv = ?k then (fst kv, ?f (snd kv)) else kv)" by blast
    from kv gs1 have g: "group_sorted kv" by (simp only: list_all_iff)
    from kv be1 have b: "group_below r kv" by (simp only: list_all_iff)
    show "group_sorted x"
    proof (cases "fst kv = ?k")
      case True
      with g have "ActGroup.act_no (snd kv) = beat_row.act_no r" by (simp add: key_of_group)
      with b g x True show ?thesis
        by (auto simp: group_sorted_def group_below_def sorted_wrt_append list_all_iff)
    next
      case False
      with x g show ?thesis by simp
    qed
  qed
  show "sorted_wrt (<) (map (ActGroup.act_no \<circ> snd) (fst (add_beat st r)))"
    unfolding eq no1 by (rule so1)
  show "list_all (group_below s) (fst (add_beat st r))"
    if rs: "row_lt r s" and bs: "list_all (group_below s) (fst st)"
    unfolding eq list_all_iff
  proof
    fix x assume "x \<in> set (modify ?k ?f ?rd1)"
    from mem [OF this] obtain kv where kv: "kv \<in> set ?rd1"
      and x: "x = (if fst kv = ?k then (fst kv, ?f (snd kv)) else kv)" by blast
    from kv gs1 have g: "group_sorted kv" by (simp only: list_all_iff)
    from kv be1 have b: "group_below r kv" by (simp only: list_all_iff)
    have bs1: "group_below s kv"
    proof (cases "kv \<in> set (fst st)")
      case True
      with bs show ?thesis by (simp add: list_all_iff)
    next
      case False
      with kv have "kv = (?k, ?new)" by (auto split: if_splits)
      with rs show ?thesis by (auto simp: group_below_def row_lt_def)
    qed
    show "group_below s x"
    proof (cases "fst kv = ?k")
      case True
      with g have "ActGroup.act_no (snd kv) = beat_row.act_no r" by (simp add: key_of_group)
      with b bs1 rs x True show ?thesis
        by (auto simp: group_below_def row_lt_def list_all_iff)
    next
      case False
      with x bs1 show ?thesis by simp
    qed
  qed
qed

lemma foldl_add_beat_sorted:
  "sorted_wrt row_lt results \<Longrightarrow> list_all group_sorted (fst st)
   \<Longrightarrow> sorted_wrt (<) (map (ActGroup.act_no \<circ> snd) (fst st))
   \<Longrightarrow> (\<forall>r\<in>set results. list_all (group_below r) (fst st))
   \<Longrightarrow> list_all group_sorted (fst (foldl add_beat st results))
       \<and> sorted_wrt (<) (map (ActGroup.act_no \<circ> snd) (fst (foldl add_beat st results)))"
proof (induction results arbitrary: st)
  case Nil
  then show ?case by simp
next
  case (Cons r results)
  from Cons.prems have be: "list_all (group_below r) (fst st)" by simp
  note ab = add_beat_sorted [OF Cons.prems(2) Cons.prems(3) be]
  have below: "\<forall>s\<in>set results. list_all (group_below s) (fst (add_beat st r))"
  proof
    fix s assume s: "s \<in> set results"
    with Cons.prems(1) have "row_lt r s" by simp
    moreover from Cons.prems(4) s have "list_all (group_below s) (fst st)" by simp
    ultimately show "list_all (group_below s) (fst (add_beat st r))" by (rule ab(3))
  qed
  from Cons.prems(1) have "sorted_wrt row_lt results" by simp
  from Cons.IH [OF this ab(1) ab(2) below] show ?case by simp
qed


text \<open>
  C2.  If the rows are sorted by act number and then beat number, with at most one row
  per pair of act number and beat number, then the report's groups are strictly
  ascending in \<open>act_no\<close>, \<open>beats_per_act\<close> lists the acts in the same order, and the
  beats of every group are strictly ascending in \<open>beat_number\<close>.
\<close>

theorem report_order:
  assumes "sorted_wrt row_le results"
    and "distinct (map (\<lambda>r. (beat_row.act_no r, beat_number r)) results)"
  shows "sorted_wrt (<) (map ActGroup.act_no (acts (build_report now results)))
    \<and> map ActCount.act_no (beats_per_act (summary (build_report now results)))
        = map ActGroup.act_no (acts (build_report now results))
    \<and> list_all (\<lambda>g. sorted_wrt (<) (map beat_number (ActGroup.beats g)))
        (acts (build_report now results))"
proof -
  from assms have "sorted_wrt row_lt results" by (rule strict_rows)
  from foldl_add_beat_sorted [OF this, of "([], 0)"]
  have gs: "list_all group_sorted (fst (group_by_act results))"
    and so: "sorted_wrt (<) (map (ActGroup.act_no \<circ> snd) (fst (group_by_act results)))"
    by (simp_all add: group_by_act_def)
  from gs have "list_all (\<lambda>g. sorted_wrt (<) (map beat_number (ActGroup.beats g)))
                  (map snd (fst (group_by_act results)))"
    by (simp add: list_all_iff group_sorted_def)
  with so show ?thesis
    by (simp add: build_report_def Let_def comp_def)
qed

theorem report_order_witness:
  "sorted_wrt row_le example_rows
   \<and> distinct (map (\<lambda>r. (beat_row.act_no r, beat_number r)) example_rows)
   \<and> sorted_wrt (<) (map ActGroup.act_no (acts (build_report [] example_rows)))
   \<and> list_all (\<lambda>g. sorted_wrt (<) (map beat_number (ActGroup.beats g)))
        (acts (build_report [] example_rows))"
proof -
  have s: "sorted_wrt row_le example_rows"
    by (simp add: example_rows_def example_beat_def row_le_def)
  have d: "distinct (map (\<lambda>r. (beat_row.act_no r, beat_number r)) example_rows)"
    by (simp add: example_rows_def example_beat_def)
  from report_order [OF s d, of "[]"] s d show ?thesis by simp
qed

section \<open>Properties of the CSV projector\<close>

lemma startsWith_single: "startsWith s [c] \<longleftrightarrow> (s \<noteq> [] \<and> hd s = c)"
  by (cases s) auto














lemma foldl_append_concat: "foldl (\<lambda>acc x. acc @ f x) a xs = a @ concat (map f xs)"
  by (induction xs arbitrary: a) simp_all

lemma foldl_foldl_concat:
  "foldl (\<lambda>acc x. foldl (\<lambda>acc y. acc @ f x y) acc (g x)) a xs
   = a @ concat (map (\<lambda>x. concat (map (f x) (g x))) xs)"
  by (induction xs arbitrary: a) (simp_all add: foldl_append_concat)

lemma generateCSVReport_lines:
  "generateCSVReport report =
     csv_header @ concat (map (\<lambda>act. concat (map (\<lambda>beat. join '','' (csv_row act beat) @ [CHR 0x0A])
                                               (ActGroup.beats act))) (acts report))"
  unfolding generateCSVReport_def by (rule foldl_foldl_concat)





section \<open>Truthiness\<close>

lemma nulled_str_truthy: "nulled_str v v' \<Longrightarrow> truthy_str v' = truthy_str v"
  by (auto simp: nulled_str_def)

lemma nulled_str_or_else: "nulled_str v v' \<Longrightarrow> or_else v' d = or_else v d"
  by (auto simp: nulled_str_def)

lemma nulled_str_template:
  "nulled_str v v' \<Longrightarrow> truthy_str v \<Longrightarrow> template_str v' = template_str v"
  by (auto simp: nulled_str_def)

lemma nulled_num_truthy: "nulled_num v v' \<Longrightarrow> truthy_num v' = truthy_num v"
  by (auto simp: nulled_num_def)

lemma nulled_num_template:
  "nulled_num v v' \<Longrightarrow> truthy_num v \<Longrightarrow> template_num v' = template_num v"
  by (auto simp: nulled_num_def)

lemma nulled_num_or_empty: "nulled_num v v' \<Longrightarrow> num_or_empty v' = num_or_empty v"
  by (auto simp: nulled_num_def)

lemma nulled_beat_entry:
  assumes "nulled_beat b b'"
  shows "beat_entry b' = beat_entry b"
proof -
  from assms have n: "beat_number b' = beat_number b"
    and s: "nulled_num (scene_number b) (scene_number b')"
    and t: "nulled_str (BeatView.title b) (BeatView.title b')"
    and d: "nulled_str (BeatView.description b) (BeatView.description b')"
    and c: "nulled_str (BeatView.conflict b) (BeatView.conflict b')"
    and e: "nulled_str (BeatView.emotion b) (BeatView.emotion b')"
    and l: "nulled_str (BeatView.location b) (BeatView.location b')"
    and y: "nulled_str (time_of_day b) (time_of_day b')"
    and h: "nulled_str (BeatView.characters b) (BeatView.characters b')"
    by (simp_all add: nulled_beat_def)
  note tr = nulled_num_truthy [OF s] nulled_str_truthy [OF c] nulled_str_truthy [OF e]
    nulled_str_truthy [OF l] nulled_str_truthy [OF y] nulled_str_truthy [OF h]
  note oe = nulled_str_or_else [OF t] nulled_str_or_else [OF d]
  note te = nulled_num_template [OF s] nulled_str_template [OF c] nulled_str_template [OF e]
    nulled_str_template [OF l] nulled_str_template [OF y] nulled_str_template [OF h]
  show ?thesis
    unfolding beat_entry_def n tr oe
    by (simp add: te)
qed

lemma nulled_csv_row:
  assumes "nulled_beat b b'"
  shows "csv_row act b' = csv_row act b"
proof -
  from assms have n: "beat_number b' = beat_number b"
    and s: "nulled_num (scene_number b) (scene_number b')"
    and t: "nulled_str (BeatView.title b) (BeatView.title b')"
    and d: "nulled_str (BeatView.description b) (BeatView.description b')"
    and c: "nulled_str (BeatView.conflict b) (BeatView.conflict b')"
    and e: "nulled_str (BeatView.emotion b) (BeatView.emotion b')"
    and l: "nulled_str (BeatView.location b) (BeatView.location b')"
    and y: "nulled_str (time_of_day b) (time_of_day b')"
    and h: "nulled_str (BeatView.characters b) (BeatView.characters b')"
    and v: "nulled_num (version b) (version b')"
    and cr: "nulled_str (created_at b) (created_at b')"
    and up: "nulled_str (updated_at b) (updated_at b')"
    by (simp_all add: nulled_beat_def)
  show ?thesis
    unfolding csv_row_def n nulled_num_or_empty [OF s] nulled_num_or_empty [OF v]
      nulled_str_or_else [OF t] nulled_str_or_else [OF d] nulled_str_or_else [OF c]
      nulled_str_or_else [OF e] nulled_str_or_else [OF l] nulled_str_or_else [OF y]
      nulled_str_or_else [OF h] nulled_str_or_else [OF cr] nulled_str_or_else [OF up] ..
qed

lemma list_all2_map_eq:
  "list_all2 R xs ys \<Longrightarrow> (\<And>x y. R x y \<Longrightarrow> f x = g y) \<Longrightarrow> map f xs = map g ys"
  by (induction rule: list_all2_induct) auto

lemma nulled_act_section:
  assumes "nulled_act a a'"
  shows "act_section today a' = act_section today a"
proof -
  from assms have "list_all2 nulled_beat (ActGroup.beats a) (ActGroup.beats a')"
    by (simp add: nulled_act_def)
  then have "map beat_entry (ActGroup.beats a) = map beat_entry (ActGroup.beats a')"
    by (rule list_all2_map_eq) (simp add: nulled_beat_entry)
  moreover from assms have "ActGroup.act_no a' = ActGroup.act_no a"
    by (simp add: nulled_act_def)
  ultimately show ?thesis by (simp add: act_section_def)
qed

lemma nulled_nav_item: "nulled_act a a' \<Longrightarrow> nav_item a' = nav_item a"
  by (simp add: nav_item_def nulled_act_def)

lemma nulled_act_lines:
  assumes "nulled_act a a'"
  shows "concat (map (\<lambda>beat. join '','' (csv_row a' beat) @ [CHR 0x0A]) (ActGroup.beats a'))
       = concat (map (\<lambda>beat. join '','' (csv_row a beat) @ [CHR 0x0A]) (ActGroup.beats a))"
proof -
  from assms have h: "ActGroup.act_no a' = ActGroup.act_no a"
    "ActGroup.act_title a' = ActGroup.act_title a"
    and l: "list_all2 nulled_beat (ActGroup.beats a) (ActGroup.beats a')"
    by (simp_all add: nulled_act_def)
  have r: "csv_row a' beat = csv_row a beat" for beat
    by (simp add: csv_row_def h del: escapeCSV.simps)
  from l have "map (\<lambda>beat. join '','' (csv_row a beat) @ [CHR 0x0A]) (ActGroup.beats a)
             = map (\<lambda>beat. join '','' (csv_row a beat) @ [CHR 0x0A]) (ActGroup.beats a')"
    by (rule list_all2_map_eq) (simp add: nulled_csv_row)
  then show ?thesis by (simp add: r)
qed

text \<open>
  C10.  Replacing, in any beats of a report, any field values that are the empty string
  (or, for the scene number and the version, the number \<open>0\<close>) by \<^verbatim>\<open>null\<close> changes
  neither the CSV projector's output nor the HTML projector's.
\<close>

theorem truthiness_only:
  assumes "nulled_report r r'"
  shows "generateCSVReport r' = generateCSVReport r
       \<and> generateHTMLReport today r' = generateHTMLReport today r"
proof -
  from assms have l: "list_all2 nulled_act (acts r) (acts r')"
    and s: "summary r' = summary r"
    by (simp_all add: nulled_report_def)
  from l have "map (\<lambda>act. concat (map (\<lambda>beat. join '','' (csv_row act beat) @ [CHR 0x0A])
                                  (ActGroup.beats act))) (acts r)
             = map (\<lambda>act. concat (map (\<lambda>beat. join '','' (csv_row act beat) @ [CHR 0x0A])
                                  (ActGroup.beats act))) (acts r')"
    by (rule list_all2_map_eq) (simp add: nulled_act_lines)
  then have c: "generateCSVReport r' = generateCSVReport r"
    by (simp only: generateCSVReport_lines)
  from l have "map (act_section today) (acts r) = map (act_section today) (acts r')"
    by (rule list_all2_map_eq) (simp add: nulled_act_section)
  then have b: "beatsHTML today r' = beatsHTML today r"
    by (simp add: beatsHTML_def)
  from l have "map nav_item (acts r) = map nav_item (acts r')"
    by (rule list_all2_map_eq) (simp add: nulled_nav_item)
  then have n: "sidebarHTML r' = sidebarHTML r"
    by (simp add: sidebarHTML_def)
  have "generateHTMLReport today r' = generateHTMLReport today r"
    unfolding generateHTMLReport_def b n s ..
  with c show ?thesis ..
qed


theorem truthiness_only_witness:
  "nulled_report example_report nulled_example_report
   \<and> nulled_example_report \<noteq> example_report
   \<and> generateCSVReport nulled_example_report = generateCSVReport example_report
   \<and> generateHTMLReport ''Monday, January 1, 2024'' nulled_example_report
       = generateHTMLReport ''Monday, January 1, 2024'' example_report"
proof -
  have n: "nulled_report example_report nulled_example_report"
    by (simp add: nulled_report_def nulled_example_report_def example_report_def nulled_act_def
          example_act_def nulled_beat_def nulled_str_def nulled_num_def beat_view_def
          example_beat_def)
  have d: "nulled_example_report \<noteq> example_report"
    by (simp add: nulled_example_report_def example_report_def example_act_def beat_view_def
          example_beat_def)
  from truthiness_only [OF n, of "''Monday, January 1, 2024''"] n d show ?thesis by simp
qed

section \<open>Searching in texts\<close>

lemma startsWith_Nil [simp]: "startsWith s [] = True"
  by (cases s) simp_all

lemma startsWith_append_cancel [simp]: "startsWith (t @ s) (t @ p) = startsWith s p"
  by (induction t) simp_all

lemma startsWith_append_self [simp]: "startsWith (t @ s) t = True"
  using startsWith_append_cancel [of t s "[]"] by simp

lemma str_includes_Nil [simp]: "str_includes s [] = True"
  by (cases s) simp_all

lemma startsWith_iff: "startsWith s p \<longleftrightarrow> (\<exists>r. s = p @ r)"
  by (induction s p rule: startsWith.induct) auto

lemma str_includes_iff: "str_includes s x \<longleftrightarrow> (\<exists>a b. s = a @ x @ b)"
proof (induction s)
  case Nil
  then show ?case by auto
next
  case (Cons c s)
  show ?case
  proof
    assume "str_includes (c # s) x"
    then consider "startsWith (c # s) x" | "str_includes s x" by auto
    then show "\<exists>a b. c # s = a @ x @ b"
    proof cases
      case 1
      then obtain r where "c # s = x @ r" by (auto simp: startsWith_iff)
      then have "c # s = [] @ x @ r" by simp
      then show ?thesis by blast
    next
      case 2
      with Cons.IH obtain a b where "s = a @ x @ b" by blast
      then have "c # s = (c # a) @ x @ b" by simp
      then show ?thesis by blast
    qed
  next
    assume "\<exists>a b. c # s = a @ x @ b"
    then obtain a b where e: "c # s = a @ x @ b" by blast
    show "str_includes (c # s) x"
    proof (cases a)
      case Nil
      with e have "startsWith (c # s) x" by (auto simp: startsWith_iff)
      then show ?thesis by simp
    next
      case (Cons d a')
      with e have "s = a' @ x @ b" by simp
      with Cons.IH have "str_includes s x" by blast
      then show ?thesis by simp
    qed
  qed
qed

lemma includes_here: "startsWith s x \<Longrightarrow> str_includes s x"
  by (cases s; cases x) auto

lemma includes_Cons: "str_includes s x \<Longrightarrow> str_includes (c # s) x"
  by simp

lemma includes_right: "str_includes b x \<Longrightarrow> str_includes (a @ b) x"
  by (induction a) simp_all

lemma includes_left: "str_includes a x \<Longrightarrow> str_includes (a @ b) x"
proof -
  assume "str_includes a x"
  then obtain p q where "a = p @ x @ q" by (auto simp: str_includes_iff)
  then have "a @ b = p @ x @ (q @ b)" by simp
  then show ?thesis unfolding str_includes_iff by blast
qed

lemma includes_Cons_app: "str_includes (s @ b) x \<Longrightarrow> str_includes ((c # s) @ b) x"
  by simp

lemma includes_concat_map:
  "a \<in> set xs \<Longrightarrow> str_includes (f a) x \<Longrightarrow> str_includes (concat (map f xs)) x"
  by (induction xs) (auto intro: includes_left includes_right)

lemmas starts_simps =
  startsWith.simps startsWith_Nil startsWith_append_cancel startsWith_append_self
  char.inject simp_thms

lemma startsWith_shorter:
  "startsWith (s @ t) p \<Longrightarrow> length p \<le> length s \<Longrightarrow> startsWith s p"
  by (induction s p rule: startsWith.induct) auto

lemma startsWith_append_no:
  "c \<notin> set p \<Longrightarrow> startsWith (a @ c # b) p \<longleftrightarrow> startsWith a p"
proof (induction a p rule: startsWith.induct)
  case (1 s)
  then show ?case by simp
next
  case (2 p ps)
  then show ?case by auto
next
  case (3 c s p ps)
  then show ?case by simp
qed

lemma includes_split_char:
  "c \<notin> set p \<Longrightarrow> p \<noteq> []
   \<Longrightarrow> str_includes (a @ c # b) p \<longleftrightarrow> str_includes a p \<or> str_includes b p"
proof (induction a)
  case Nil
  then show ?case by (cases p) auto
next
  case (Cons d a)
  then show ?case
    using startsWith_append_no [of c p "d # a" b] by auto
qed

lemma includes_split_last:
  assumes "a \<noteq> []" "last a \<notin> set p" "p \<noteq> []"
  shows "str_includes (a @ b) p \<longleftrightarrow> str_includes a p \<or> str_includes b p"
proof -
  from assms(1) have a: "a = butlast a @ [last a]" by simp
  have "str_includes (a @ b) p = str_includes (butlast a @ last a # b) p"
    by (subst a) simp
  also have "\<dots> = (str_includes (butlast a) p \<or> str_includes b p)"
    by (rule includes_split_char [OF assms(2,3)])
  also have "str_includes (butlast a) p = str_includes a p"
  proof -
    have "str_includes (butlast a @ last a # []) p
            = (str_includes (butlast a) p \<or> str_includes [] p)"
      by (rule includes_split_char [OF assms(2,3)])
    with a assms(3) show ?thesis by simp
  qed
  finally show ?thesis .
qed

lemma includes_split_first:
  "c \<notin> set p \<Longrightarrow> p \<noteq> []
   \<Longrightarrow> str_includes (a @ (c # l) @ b) p \<longleftrightarrow> str_includes a p \<or> str_includes ((c # l) @ b) p"
proof -
  assume c: "c \<notin> set p" and p: "p \<noteq> []"
  have "str_includes (a @ c # (l @ b)) p = (str_includes a p \<or> str_includes (l @ b) p)"
    by (rule includes_split_char [OF c p])
  moreover have "str_includes ([] @ c # (l @ b)) p = (str_includes [] p \<or> str_includes (l @ b) p)"
    by (rule includes_split_char [OF c p])
  ultimately show ?thesis using p by simp
qed

lemma includes_peel:
  "last (c # s) \<in> set p
   \<Longrightarrow> str_includes ((c # s) @ b) p = (startsWith ((c # s) @ b) p \<or> str_includes (s @ b) p)"
  by simp

lemma startsWith_peel:
  "startsWith ((c # s) @ b) (d # p) = (c = d \<and> startsWith (s @ b) p)"
  by simp

lemmas split_simps =
  includes_split_last append_assoc last.simps list.distinct list.simps set_simps
  insert_iff empty_iff char.inject simp_thms str_includes.simps startsWith.simps
  if_True if_False


lemma includes_skip_first:
  assumes "p \<noteq> []" "hd p \<notin> set v"
  shows "str_includes (v @ rest) p = str_includes rest p"
  using assms(2)
proof (induction v)
  case Nil
  then show ?case by simp
next
  case (Cons c v)
  from assms(1) obtain d q where p: "p = d # q" by (cases p) auto
  with Cons.prems have "c \<noteq> d" and "hd p \<notin> set v" by auto
  with Cons.IH p show ?case by simp
qed

lemma includes_skip_data:
  assumes "\<not> str_includes v p" "c \<notin> set p"
  shows "str_includes (v @ c # rest) p = str_includes rest p"
proof -
  from assms(1) have "p \<noteq> []" by auto
  from includes_split_char [OF assms(2) this, of v rest] assms(1) show ?thesis by simp
qed

lemma includes_chars: "str_includes s p \<Longrightarrow> set p \<subseteq> set s"
  by (auto simp: str_includes_iff)

lemma concat_excludes:
  assumes c: "c \<notin> set p"
    and f: "\<And>x. x \<in> set xs \<Longrightarrow> \<exists>r. f x = c # r"
    and n: "\<And>x. x \<in> set xs \<Longrightarrow> \<not> str_includes (f x) p"
    and p: "p \<noteq> []"
  shows "\<not> str_includes (concat (map f xs)) p"
  using f n
proof (induction xs)
  case Nil
  with p show ?case by simp
next
  case (Cons x xs)
  from Cons.prems have nx: "\<not> str_includes (f x) p" by simp
  have ih: "\<not> str_includes (concat (map f xs)) p"
    by (rule Cons.IH) (simp_all add: Cons.prems)
  show ?case
  proof (cases xs)
    case Nil
    with nx show ?thesis by simp
  next
    case (Cons y ys)
    with Cons.prems(1) [of y] obtain r where r: "f y = c # r" by auto
    with Cons have e: "concat (map f xs) = c # (r @ concat (map f ys))" by simp
    from ih e have "\<not> str_includes (r @ concat (map f ys)) p" by simp
    with includes_split_char [OF c p, of "f x" "r @ concat (map f ys)"] nx e
    show ?thesis by simp
  qed
qed

subsection \<open>The decimal text of a number holds digits and a sign only\<close>

lemma number_chars: "set (number_toString n) \<subseteq> set ''-0123456789''"
  using string_of_nat_digits [of "nat n"] string_of_nat_digits [of "nat (- n)"]
  by (simp add: number_toString_def subset_insertI2)

lemma number_no_lt: "CHR ''<'' \<notin> set (number_toString n)"
  using number_chars [of n] by fastforce

lemma nat_no_lt: "CHR ''<'' \<notin> set (string_of_nat n)"
  using string_of_nat_digits [of n] by auto

lemma number_excludes:
  assumes "c \<in> set w" "c \<notin> set ''-0123456789''"
  shows "\<not> str_includes (number_toString n) w"
proof
  assume "str_includes (number_toString n) w"
  then have "set w \<subseteq> set (number_toString n)" by (rule includes_chars)
  with assms(1) number_chars [of n] have "c \<in> set ''-0123456789''" by blast
  with assms(2) show False ..
qed

lemma nat_excludes:
  assumes "c \<in> set w" "c \<notin> set ''0123456789''"
  shows "\<not> str_includes (string_of_nat n) w"
proof
  assume "str_includes (string_of_nat n) w"
  then have "set w \<subseteq> set (string_of_nat n)" by (rule includes_chars)
  with assms(1) string_of_nat_digits [of n] have "c \<in> set ''0123456789''" by blast
  with assms(2) show False ..
qed

lemma number_1: "number_toString 1 = ''1''" and nat_1: "string_of_nat 1 = ''1''"
  and number_3: "number_toString 3 = ''3''"
  by (simp_all add: number_toString_def string_of_nat.simps digit_char_def)

section \<open>Properties of the request handlers\<close>

text \<open>
  C7.  When the aggregation query raises, the report request answers with status 500 and
  a JSON body that holds the error message, whatever the format: for the JSON format as
  the claim says, and for the HTML format too, where the claim expects an HTML document.
\<close>

theorem report_error_response:
  assumes "report_beats db = Inl error"
  shows "handleReportRequest db now today format
           = jsonResponse
               (JObj [(''error'', JStr ''Report generation failed''),
                      (''message'', JStr (''Failed to generate report: '' @ message error))])
               500 corsHeaders
    \<and> status (handleReportRequest db now today format) = 500
    \<and> headers (handleReportRequest db now today format)
        = (''Content-Type'', ''application/json'') # corsHeaders
    \<and> startsWith (body (handleReportRequest db now today format)) ''{''
    \<and> \<not> is_html_document (body (handleReportRequest db now today format))"
  using assms
  by (simp add: handleReportRequest_def generateBeatReport_def jsonResponse_def
        is_html_document_def)

theorem report_error_response_witness:
  "report_beats failing_db = Inl (Error ''D1_ERROR: no such table: beats'')
   \<and> status (handleReportRequest failing_db [] [] ''html'') = 500
   \<and> \<not> is_html_document (body (handleReportRequest failing_db [] [] ''html''))"
proof -
  have h: "report_beats failing_db = Inl (Error ''D1_ERROR: no such table: beats'')"
    by (simp add: failing_db_def)
  from report_error_response [OF h, of "[]" "[]" "''html''"] h show ?thesis
    by (simp add: jsonResponse_def is_html_document_def)
qed

text \<open>
  C8.  \<^verbatim>\<open>generateAllBeatsPage\<close> raises a \<^verbatim>\<open>ReferenceError\<close> for every store.  When the
  query succeeds, the \<^verbatim>\<open>try\<close> block runs to its end, and leaves the function's scope
  as it found it: \<^verbatim>\<open>allBeatCards\<close> is declared inside the block, and the template reads
  it after the block.  The request ends in \<^verbatim>\<open>fetch\<close>'s handler, with status 500 and a
  JSON body.
\<close>

theorem all_beats_page_raises:
  "(all_beats db = Inr results \<longrightarrow> all_beats_try db [Map.empty] = Inr [Map.empty])
   \<and> generateAllBeatsPage db = Inl (ReferenceError ''allBeatCards is not defined'')
   \<and> fetch_all_beats db
       = jsonResponse
           (JObj [(''error'', JStr ''Internal server error''),
                  (''message'', JStr ''allBeatCards is not defined'')])
           500 []
   \<and> status (fetch_all_beats db) = 500
   \<and> \<not> is_html_document (body (fetch_all_beats db))"
proof -
  have g: "generateAllBeatsPage db = Inl (ReferenceError ''allBeatCards is not defined'')"
    by (cases "all_beats db")
       (simp_all add: generateAllBeatsPage_def all_beats_try_def all_beats_catch_def
          enter_block_def exit_block_def Let_def)
  have t: "all_beats_try db [Map.empty] = Inr [Map.empty]" if "all_beats db = Inr results"
    using that by (simp add: all_beats_try_def enter_block_def exit_block_def)
  from g t show ?thesis
    by (simp add: fetch_all_beats_def fetch_catch_def jsonResponse_def is_html_document_def)
qed

theorem all_beats_page_raises_witness:
  "all_beats example_db = Inr example_rows
   \<and> all_beats_try example_db [Map.empty] = Inr [Map.empty]
   \<and> generateAllBeatsPage example_db = Inl (ReferenceError ''allBeatCards is not defined'')
   \<and> status (fetch_all_beats example_db) = 500"
proof -
  have h: "all_beats example_db = Inr example_rows" by (simp add: example_db_def)
  from all_beats_page_raises [of example_db example_rows] h show ?thesis by blast
qed

lemma page_title:
  "str_includes (generateBeatPage actNumber beatNumber beatData (Some t))
     (''<title>ALLY - '' @ t @ '' - Beat '' @ number_toString (Rep_safe_integer beatNumber))"
  unfolding generateBeatPage_def
  apply (simp only: append_Cons append_Nil append_assoc template_str.simps)
  apply ((rule includes_here, (simp only: starts_simps; fail)) | rule includes_Cons
         | rule includes_right)+
  done

lemma page_description:
  "str_includes (generateBeatPage actNumber beatNumber beatData actTitle)
     (''<p>'' @ BeatData.description beatData @ ''</p>'')"
  unfolding generateBeatPage_def
  apply (simp only: append_Cons append_Nil append_assoc)
  apply ((rule includes_here, (simp only: starts_simps; fail)) | rule includes_Cons
         | rule includes_right)+
  done

lemma page_doctype:
  "startsWith (generateBeatPage actNumber beatNumber beatData actTitle) ''<!DOCTYPE html>''"
  by (simp add: generateBeatPage_def)

text \<open>
  C9.  A beat-detail request whose act number and beat number (numbers in the safe range,
  where the page prints them in plain decimal) match no beat, while the act number
  matches an act with title \<open>t\<close>, is answered with status 200 and an HTML page that says
  the beat was not found in \<open>t\<close> and carries \<open>t\<close> in its title.
\<close>

theorem beat_not_found_page:
  assumes "beat_first db (Rep_safe_integer actNumber) (Rep_safe_integer beatNumber) = Inr None"
    and "act_first db (Rep_safe_integer actNumber) = Inr (Some act)"
    and "act_row.title act = Some t"
  shows "status (beat_route db localeDate actNumber beatNumber) = 200
    \<and> headers (beat_route db localeDate actNumber beatNumber)
        = (''Content-Type'', ''text/html'') # corsHeaders
    \<and> str_includes (body (beat_route db localeDate actNumber beatNumber))
        (''<p>Beat '' @ number_toString (Rep_safe_integer beatNumber)
         @ '' was not found in '' @ t
         @ ''. This beat may not exist yet or may have been removed.</p>'')
    \<and> str_includes (body (beat_route db localeDate actNumber beatNumber))
        (''<title>ALLY - '' @ t @ '' - Beat '' @ number_toString (Rep_safe_integer beatNumber))
    \<and> startsWith (body (beat_route db localeDate actNumber beatNumber)) ''<!DOCTYPE html>''"
proof -
  define beatData where "beatData =
     \<lparr>BeatData.title = ''Beat '' @ number_toString (Rep_safe_integer beatNumber),
      BeatData.description =
        ''Beat '' @ number_toString (Rep_safe_integer beatNumber) @ '' was not found in '' @ t
        @ ''. This beat may not exist yet or may have been removed.'',
      BeatData.conflict = ''N/A'',
      BeatData.emotion = ''N/A'',
      BeatData.location = ''N/A'',
      BeatData.timeOfDay = ''N/A'',
      BeatData.characters = ''N/A'',
      BeatData.sceneNumber = Rep_safe_integer beatNumber,
      BeatData.lastUpdated = ''N/A'',
      BeatData.createdDate = ''Not available''\<rparr>"
  have r: "beat_route db localeDate actNumber beatNumber =
     \<lparr>status = 200,
      headers = (''Content-Type'', ''text/html'') # corsHeaders,
      body = generateBeatPage actNumber beatNumber beatData (Some t)\<rparr>"
    using assms by (simp add: beat_route_def beat_route_try_def Let_def beatData_def)
  have d: "''<p>'' @ BeatData.description beatData @ ''</p>''
           = ''<p>Beat '' @ number_toString (Rep_safe_integer beatNumber)
             @ '' was not found in '' @ t
             @ ''. This beat may not exist yet or may have been removed.</p>''"
    by (simp add: beatData_def)
  from page_description [of actNumber beatNumber beatData "Some t"]
  have "str_includes (generateBeatPage actNumber beatNumber beatData (Some t))
          (''<p>Beat '' @ number_toString (Rep_safe_integer beatNumber)
           @ '' was not found in '' @ t
           @ ''. This beat may not exist yet or may have been removed.</p>'')"
    by (simp only: d)
  with page_title [of actNumber beatNumber beatData t]
    page_doctype [of actNumber beatNumber beatData "Some t"]
  show ?thesis by (simp only: r response.simps simp_thms)
qed

theorem beat_not_found_page_witness:
  "Rep_safe_integer (Abs_safe_integer 1) = 1
   \<and> Rep_safe_integer (Abs_safe_integer 9) = 9
   \<and> beat_first example_db 1 9 = Inr None
   \<and> act_first example_db 1 = Inr (Some \<lparr>act_row.title = Some ''Setup''\<rparr>)
   \<and> status (beat_route example_db (\<lambda>s. s) (Abs_safe_integer 1) (Abs_safe_integer 9)) = 200
   \<and> str_includes
        (body (beat_route example_db (\<lambda>s. s) (Abs_safe_integer 1) (Abs_safe_integer 9)))
        (''<p>Beat 9 was not found in Setup''
         @ ''. This beat may not exist yet or may have been removed.</p>'')"
proof -
  have one: "Rep_safe_integer (Abs_safe_integer 1) = 1"
    and nine: "Rep_safe_integer (Abs_safe_integer 9) = 9"
    by (simp_all add: Abs_safe_integer_inverse)
  have n: "number_toString 9 = ''9''"
    by (simp add: number_toString_def string_of_nat.simps digit_char_def)
  have b: "beat_first example_db (Rep_safe_integer (Abs_safe_integer 1))
             (Rep_safe_integer (Abs_safe_integer 9)) = Inr None"
    by (simp add: one nine example_db_def example_rows_def example_beat_def)
  have a: "act_first example_db (Rep_safe_integer (Abs_safe_integer 1))
             = Inr (Some \<lparr>act_row.title = Some ''Setup''\<rparr>)"
    by (simp add: one example_db_def example_rows_def example_beat_def)
  from beat_not_found_page [OF b a, of "''Setup''" "\<lambda>s. s"] a b one nine n
  show ?thesis by simp
qed


section \<open>Properties of the HTML projector\<close>

lemma notin_or_else: "c \<notin> set (or_else v []) \<Longrightarrow> c \<notin> set d \<Longrightarrow> c \<notin> set (or_else v d)"
  by (cases v) auto

lemma excludes_or_else:
  "\<not> str_includes (or_else v []) w \<Longrightarrow> \<not> str_includes d w \<Longrightarrow> \<not> str_includes (or_else v d) w"
  by (cases v) auto

lemma truthy_template: "truthy_str v \<Longrightarrow> template_str v = or_else v []"
  by (cases v) auto

lemma markup_free_facts:
  assumes "markup_free b"
  shows "CHR ''<'' \<notin> set (or_else (BeatView.title b) ''Untitled Beat'')"
    and "CHR ''<'' \<notin> set (or_else (BeatView.description b) ''No description available.'')"
    and "CHR ''<'' \<notin> set (or_else (BeatView.conflict b) [])"
    and "CHR ''<'' \<notin> set (or_else (BeatView.emotion b) [])"
    and "CHR ''<'' \<notin> set (or_else (BeatView.location b) [])"
    and "CHR ''<'' \<notin> set (or_else (time_of_day b) [])"
    and "CHR ''<'' \<notin> set (or_else (BeatView.characters b) [])"
  using assms by (simp_all add: markup_free_def notin_or_else)

lemma scene_no_lt: "truthy_num v \<Longrightarrow> CHR ''<'' \<notin> set (template_num v)"
  using number_no_lt by (cases v) auto

lemmas label_simps =
  includes_skip_first markup_free_facts scene_no_lt number_no_lt truthy_template

lemma entry_label_conflict:
  "markup_free b \<Longrightarrow>
     str_includes (beat_entry b) ''<strong>Conflict:</strong>'' \<longleftrightarrow> truthy_str (BeatView.conflict b)"
  unfolding beat_entry_def by (simp add: label_simps)

lemma entry_label_emotion:
  "markup_free b \<Longrightarrow>
     str_includes (beat_entry b) ''<strong>Emotion:</strong>'' \<longleftrightarrow> truthy_str (BeatView.emotion b)"
  unfolding beat_entry_def by (simp add: label_simps)

lemma entry_label_location:
  "markup_free b \<Longrightarrow>
     str_includes (beat_entry b) ''<strong>Location:</strong>'' \<longleftrightarrow> truthy_str (BeatView.location b)"
  unfolding beat_entry_def by (simp add: label_simps)

lemma entry_label_time:
  "markup_free b \<Longrightarrow>
     str_includes (beat_entry b) ''<strong>Time:</strong>'' \<longleftrightarrow> truthy_str (time_of_day b)"
  unfolding beat_entry_def by (simp add: label_simps)

lemma entry_label_characters:
  "markup_free b \<Longrightarrow>
     str_includes (beat_entry b) ''<strong>Characters:</strong>'' \<longleftrightarrow> truthy_str (BeatView.characters b)"
  unfolding beat_entry_def by (simp add: label_simps)

lemma scene_excludes:
  "truthy_num v \<Longrightarrow> c \<in> set w \<Longrightarrow> c \<notin> set ''-0123456789''
   \<Longrightarrow> \<not> str_includes (template_num v) w"
  using number_excludes by (cases v) auto

lemma unmentioned_facts:
  assumes "\<not> mentions b w"
    and "\<not> str_includes ''Untitled Beat'' w"
    and "\<not> str_includes ''No description available.'' w"
  shows "\<not> str_includes (or_else (BeatView.title b) ''Untitled Beat'') w"
    and "\<not> str_includes (or_else (BeatView.description b) ''No description available.'') w"
    and "\<not> str_includes (or_else (BeatView.conflict b) []) w"
    and "\<not> str_includes (or_else (BeatView.emotion b) []) w"
    and "\<not> str_includes (or_else (BeatView.location b) []) w"
    and "\<not> str_includes (or_else (time_of_day b) []) w"
    and "\<not> str_includes (or_else (BeatView.characters b) []) w"
  using assms by (simp_all add: mentions_def excludes_or_else)

lemma entry_no_null:
  assumes "\<not> mentions b ''null''"
  shows "\<not> str_includes (beat_entry b) ''null''"
proof -
  note f = unmentioned_facts [OF assms]
  have n: "\<not> str_includes (number_toString (beat_number b)) ''null''"
    by (rule number_excludes [of "CHR ''n''"]) simp_all
  have s: "\<not> str_includes (template_num (scene_number b)) ''null''"
    if "truthy_num (scene_number b)"
    by (rule scene_excludes [OF that, of "CHR ''n''"]) simp_all
  show ?thesis
    unfolding beat_entry_def
    by (simp add: includes_skip_data f n s truthy_template)
qed

lemma entry_no_undefined:
  assumes "\<not> mentions b ''undefined''"
  shows "\<not> str_includes (beat_entry b) ''undefined''"
proof -
  note f = unmentioned_facts [OF assms]
  have n: "\<not> str_includes (number_toString (beat_number b)) ''undefined''"
    by (rule number_excludes [of "CHR ''u''"]) simp_all
  have s: "\<not> str_includes (template_num (scene_number b)) ''undefined''"
    if "truthy_num (scene_number b)"
    by (rule scene_excludes [OF that, of "CHR ''u''"]) simp_all
  show ?thesis
    unfolding beat_entry_def
    by (simp add: includes_skip_data f n s truthy_template)
qed


lemma entry_title:
  "str_includes (beat_entry b) (''<h3>'' @ or_else (BeatView.title b) ''Untitled Beat'' @ ''</h3>'')"
  unfolding beat_entry_def
  apply (simp only: append_Cons append_Nil append_assoc)
  apply ((rule includes_here, (simp only: starts_simps; fail)) | rule includes_Cons
         | rule includes_right)+
  done

lemma entry_description:
  "str_includes (beat_entry b)
     (''<p><strong>Description:</strong> ''
      @ or_else (BeatView.description b) ''No description available.'' @ ''</p>'')"
  unfolding beat_entry_def
  apply (simp only: append_Cons append_Nil append_assoc)
  apply ((rule includes_here, (simp only: starts_simps; fail)) | rule includes_Cons
         | rule includes_right)+
  done

lemma entry_conflict:
  assumes "truthy_str (BeatView.conflict b)"
  shows "str_includes (beat_entry b)
           (''<p><strong>Conflict:</strong> '' @ template_str (BeatView.conflict b) @ ''</p>'')"
  unfolding beat_entry_def
  apply (simp only: assms if_True append_Cons append_Nil append_assoc)
  apply ((rule includes_here, (simp only: starts_simps; fail)) | rule includes_Cons
         | rule includes_right)+
  done

lemma entry_emotion:
  assumes "truthy_str (BeatView.emotion b)"
  shows "str_includes (beat_entry b)
           (''<p><strong>Emotion:</strong> '' @ template_str (BeatView.emotion b) @ ''</p>'')"
  unfolding beat_entry_def
  apply (simp only: assms if_True append_Cons append_Nil append_assoc)
  apply ((rule includes_here, (simp only: starts_simps; fail)) | rule includes_Cons
         | rule includes_right)+
  done

lemma entry_location:
  assumes "truthy_str (BeatView.location b)"
  shows "str_includes (beat_entry b)
           (''<p><strong>Location:</strong> '' @ template_str (BeatView.location b) @ ''</p>'')"
  unfolding beat_entry_def
  apply (simp only: assms if_True append_Cons append_Nil append_assoc)
  apply ((rule includes_here, (simp only: starts_simps; fail)) | rule includes_Cons
         | rule includes_right)+
  done

lemma entry_time:
  assumes "truthy_str (time_of_day b)"
  shows "str_includes (beat_entry b)
           (''<p><strong>Time:</strong> '' @ template_str (time_of_day b) @ ''</p>'')"
  unfolding beat_entry_def
  apply (simp only: assms if_True append_Cons append_Nil append_assoc)
  apply ((rule includes_here, (simp only: starts_simps; fail)) | rule includes_Cons
         | rule includes_right)+
  done

lemma entry_characters:
  assumes "truthy_str (BeatView.characters b)"
  shows "str_includes (beat_entry b)
           (''<p><strong>Characters:</strong> '' @ template_str (BeatView.characters b) @ ''</p>'')"
  unfolding beat_entry_def
  apply (simp only: assms if_True append_Cons append_Nil append_assoc)
  apply ((rule includes_here, (simp only: starts_simps; fail)) | rule includes_Cons
         | rule includes_right)+
  done

lemma section_includes:
  assumes "beat \<in> set (ActGroup.beats act)" and "str_includes (beat_entry beat) x"
  shows "str_includes (act_section today act) x"
  unfolding act_section_def
  apply (insert assms)
  apply ((rule includes_left, rule includes_concat_map, assumption, assumption)
         | rule includes_right)+
  done

lemma document_includes:
  assumes "act \<in> set (acts report)" and "str_includes (act_section today act) x"
  shows "str_includes (generateHTMLReport today report) x"
  unfolding generateHTMLReport_def beatsHTML_def
  apply (insert assms)
  apply ((rule includes_left, rule includes_concat_map, assumption, assumption)
         | rule includes_right)+
  done

lemma document_includes_entry:
  "act \<in> set (acts report) \<Longrightarrow> beat \<in> set (ActGroup.beats act)
   \<Longrightarrow> str_includes (beat_entry beat) x
   \<Longrightarrow> str_includes (generateHTMLReport today report) x"
  by (rule document_includes, assumption, rule section_includes)



subsection \<open>Absent values leave no word in the document\<close>

lemma entry_starts: "\<exists>r. beat_entry b = CHR 0x0A # r"
  by (simp add: beat_entry_def)

lemma section_starts: "\<exists>r. act_section today a = CHR 0x0A # r"
  by (simp add: act_section_def)

lemma nav_starts: "\<exists>r. nav_item a = CHR 0x0A # r"
  by (simp add: nav_item_def)

lemma section_no_null:
  assumes t: "\<not> str_includes today ''null''"
    and b: "\<And>beat. beat \<in> set (ActGroup.beats a) \<Longrightarrow> \<not> mentions beat ''null''"
  shows "\<not> str_includes (act_section today a) ''null''"
proof -
  have n: "\<not> str_includes (number_toString (ActGroup.act_no a)) ''null''"
    by (rule number_excludes [of "CHR ''n''"]) simp_all
  have e: "\<not> str_includes (concat (map beat_entry (ActGroup.beats a))) ''null''"
    by (rule concat_excludes [of "CHR 0x0A"]) (simp_all add: entry_starts entry_no_null b)
  show ?thesis
    unfolding act_section_def
    by (simp add: includes_skip_data n e t)
qed

lemma nav_no_null: "\<not> str_includes (nav_item a) ''null''"
proof -
  have n: "\<not> str_includes (number_toString (ActGroup.act_no a)) ''null''"
    by (rule number_excludes [of "CHR ''n''"]) simp_all
  show ?thesis
    unfolding nav_item_def
    by (simp add: includes_skip_data n)
qed

lemma sidebar_no_null: "\<not> str_includes (sidebarHTML report) ''null''"
proof -
  have e: "\<not> str_includes (concat (map nav_item (acts report))) ''null''"
    by (rule concat_excludes [of "CHR 0x0A"]) (simp_all add: nav_starts nav_no_null)
  show ?thesis
    unfolding sidebarHTML_def
    by (simp add: includes_skip_data e)
qed

lemma head_last: "report_page_head \<noteq> [] \<and> last report_page_head = CHR 0x0A"
  unfolding report_page_head_def
  by (simp only: last_appendR last_append list.distinct last.simps if_True if_False simp_thms
        append_is_Nil_conv)

lemma head_no_null: "\<not> str_includes report_page_head ''null''"
  unfolding report_page_head_def
  by (simp only: split_simps)

lemma document_no_null:
  assumes t: "\<not> str_includes today ''null''"
    and b: "\<And>act beat. act \<in> set (acts report) \<Longrightarrow> beat \<in> set (ActGroup.beats act)
            \<Longrightarrow> \<not> mentions beat ''null''"
  shows "\<not> str_includes (generateHTMLReport today report) ''null''"
proof -
  have s: "\<not> str_includes (beatsHTML today report) ''null''"
    unfolding beatsHTML_def
    by (rule concat_excludes [of "CHR 0x0A"]) (simp_all add: section_starts section_no_null t b)
  have a: "\<not> str_includes (string_of_nat (total_acts (summary report))) ''null''"
    by (rule nat_excludes [of "CHR ''n''"]) simp_all
  have c: "\<not> str_includes (string_of_nat (total_beats (summary report))) ''null''"
    by (rule nat_excludes [of "CHR ''n''"]) simp_all
  show ?thesis
    unfolding generateHTMLReport_def
    by (simp only: split_simps includes_split_first includes_peel startsWith_peel append_Nil
          head_last head_no_null sidebar_no_null s a c t)
qed

lemma section_no_undefined:
  assumes t: "\<not> str_includes today ''undefined''"
    and b: "\<And>beat. beat \<in> set (ActGroup.beats a) \<Longrightarrow> \<not> mentions beat ''undefined''"
  shows "\<not> str_includes (act_section today a) ''undefined''"
proof -
  have n: "\<not> str_includes (number_toString (ActGroup.act_no a)) ''undefined''"
    by (rule number_excludes [of "CHR ''u''"]) simp_all
  have e: "\<not> str_includes (concat (map beat_entry (ActGroup.beats a))) ''undefined''"
    by (rule concat_excludes [of "CHR 0x0A"]) (simp_all add: entry_starts entry_no_undefined b)
  show ?thesis
    unfolding act_section_def
    by (simp add: includes_skip_data n e t)
qed

lemma nav_no_undefined: "\<not> str_includes (nav_item a) ''undefined''"
proof -
  have n: "\<not> str_includes (number_toString (ActGroup.act_no a)) ''undefined''"
    by (rule number_excludes [of "CHR ''u''"]) simp_all
  show ?thesis
    unfolding nav_item_def
    by (simp add: includes_skip_data n)
qed

lemma sidebar_no_undefined: "\<not> str_includes (sidebarHTML report) ''undefined''"
proof -
  have e: "\<not> str_includes (concat (map nav_item (acts report))) ''undefined''"
    by (rule concat_excludes [of "CHR 0x0A"]) (simp_all add: nav_starts nav_no_undefined)
  show ?thesis
    unfolding sidebarHTML_def
    by (simp add: includes_skip_data e)
qed

lemma head_no_undefined: "\<not> str_includes report_page_head ''undefined''"
  unfolding report_page_head_def
  by (simp only: split_simps)

lemma document_no_undefined:
  assumes t: "\<not> str_includes today ''undefined''"
    and b: "\<And>act beat. act \<in> set (acts report) \<Longrightarrow> beat \<in> set (ActGroup.beats act)
            \<Longrightarrow> \<not> mentions beat ''undefined''"
  shows "\<not> str_includes (generateHTMLReport today report) ''undefined''"
proof -
  have s: "\<not> str_includes (beatsHTML today report) ''undefined''"
    unfolding beatsHTML_def
    by (rule concat_excludes [of "CHR 0x0A"]) (simp_all add: section_starts section_no_undefined t b)
  have a: "\<not> str_includes (string_of_nat (total_acts (summary report))) ''undefined''"
    by (rule nat_excludes [of "CHR ''u''"]) simp_all
  have c: "\<not> str_includes (string_of_nat (total_beats (summary report))) ''undefined''"
    by (rule nat_excludes [of "CHR ''u''"]) simp_all
  show ?thesis
    unfolding generateHTMLReport_def
    by (simp only: split_simps includes_split_first includes_peel startsWith_peel append_Nil
          head_last head_no_undefined sidebar_no_undefined s a c t)
qed

text \<open>
  C4 (as stated, refuted).  The claim says that field values are escaped.  A title that
  holds a script element arrives in the document as it is.
\<close>

theorem html_not_escaped_counterexample:
  "str_includes (generateHTMLReport ''Monday, January 1, 2024'' script_report)
     ''<h3><script>alert(1)</script></h3>''"
proof -
  have a: "example_act\<lparr>ActGroup.beats := [script_beat]\<rparr> \<in> set (acts script_report)"
    by (simp add: script_report_def)
  have b: "script_beat \<in> set (ActGroup.beats (example_act\<lparr>ActGroup.beats := [script_beat]\<rparr>))"
    by simp
  have "or_else (BeatView.title script_beat) ''Untitled Beat'' = ''<script>alert(1)</script>''"
    by (simp add: script_beat_def)
  with entry_title [of script_beat]
  have "str_includes (beat_entry script_beat) ''<h3><script>alert(1)</script></h3>''"
    by simp
  with a b show ?thesis by (rule document_includes_entry)
qed

text \<open>
  C4 (amended).  The HTML projector inserts the texts of a beat into the document as
  they are, without escaping: for every beat of the report the document holds the title
  (or \<^verbatim>\<open>Untitled Beat\<close>) between \<^verbatim>\<open><h3>\<close> and \<^verbatim>\<open></h3>\<close>, the description (or its
  fallback) in its paragraph, and each of conflict, emotion, location, time of day and
  characters that is present in its paragraph, character for character.
\<close>

theorem html_inserts_verbatim:
  assumes "act \<in> set (acts report)" and "beat \<in> set (ActGroup.beats act)"
  shows "str_includes (generateHTMLReport today report)
           (''<h3>'' @ or_else (BeatView.title beat) ''Untitled Beat'' @ ''</h3>'')
    \<and> str_includes (generateHTMLReport today report)
           (''<p><strong>Description:</strong> ''
            @ or_else (BeatView.description beat) ''No description available.'' @ ''</p>'')
    \<and> (truthy_str (BeatView.conflict beat) \<longrightarrow>
         str_includes (generateHTMLReport today report)
           (''<p><strong>Conflict:</strong> '' @ template_str (BeatView.conflict beat) @ ''</p>''))
    \<and> (truthy_str (BeatView.emotion beat) \<longrightarrow>
         str_includes (generateHTMLReport today report)
           (''<p><strong>Emotion:</strong> '' @ template_str (BeatView.emotion beat) @ ''</p>''))
    \<and> (truthy_str (BeatView.location beat) \<longrightarrow>
         str_includes (generateHTMLReport today report)
           (''<p><strong>Location:</strong> '' @ template_str (BeatView.location beat) @ ''</p>''))
    \<and> (truthy_str (time_of_day beat) \<longrightarrow>
         str_includes (generateHTMLReport today report)
           (''<p><strong>Time:</strong> '' @ template_str (time_of_day beat) @ ''</p>''))
    \<and> (truthy_str (BeatView.characters beat) \<longrightarrow>
         str_includes (generateHTMLReport today report)
           (''<p><strong>Characters:</strong> '' @ template_str (BeatView.characters beat)
            @ ''</p>''))"
  using document_includes_entry [OF assms, of _ today] entry_title [of beat]
    entry_description [of beat] entry_conflict [of beat] entry_emotion [of beat]
    entry_location [of beat] entry_time [of beat] entry_characters [of beat]
  by blast

theorem html_inserts_verbatim_witness:
  "example_act\<lparr>ActGroup.beats := [script_beat]\<rparr> \<in> set (acts script_report)
   \<and> script_beat \<in> set (ActGroup.beats (example_act\<lparr>ActGroup.beats := [script_beat]\<rparr>))
   \<and> truthy_str (BeatView.location script_beat)
   \<and> str_includes (generateHTMLReport ''Monday, January 1, 2024'' script_report)
        (''<h3>'' @ or_else (BeatView.title script_beat) ''Untitled Beat'' @ ''</h3>'')
   \<and> str_includes (generateHTMLReport ''Monday, January 1, 2024'' script_report)
        (''<p><strong>Location:</strong> '' @ template_str (BeatView.location script_beat)
         @ ''</p>'')"
proof -
  have a: "example_act\<lparr>ActGroup.beats := [script_beat]\<rparr> \<in> set (acts script_report)"
    by (simp add: script_report_def)
  have b: "script_beat \<in> set (ActGroup.beats (example_act\<lparr>ActGroup.beats := [script_beat]\<rparr>))"
    by simp
  have l: "truthy_str (BeatView.location script_beat)"
    by (simp add: script_beat_def beat_view_def example_beat_def)
  from html_inserts_verbatim [OF a b, of "''Monday, January 1, 2024''"] a b l
  show ?thesis by blast
qed

text \<open>
  C5 (as stated, refuted).  The claim says a label and value are emitted if and only if
  the value is absent.  In the example beat the conflict is absent and no conflict label
  is emitted, and the location is present and emitted.  (Nor is a label omitted only
  when the value is absent: the emotion is the empty string, and no emotion label is
  emitted.)
\<close>

theorem html_fields_counterexample:
  "BeatView.conflict (beat_view example_beat) = None
   \<and> \<not> str_includes (beat_entry (beat_view example_beat)) ''<strong>Conflict:</strong>''
   \<and> BeatView.location (beat_view example_beat) = Some ''Rome''
   \<and> str_includes (beat_entry (beat_view example_beat)) ''<p><strong>Location:</strong> Rome</p>''
   \<and> BeatView.emotion (beat_view example_beat) = Some []
   \<and> \<not> str_includes (beat_entry (beat_view example_beat)) ''<strong>Emotion:</strong>''"
  by (simp add: beat_entry_def beat_view_def example_beat_def number_1 number_3)

text \<open>
  C5 (amended).  For every beat, the HTML projector emits the label and value of each
  of conflict, emotion, location, time of day and characters if and only if the value is
  truthy, that is neither absent nor the empty string: a truthy value stands in the entry
  in its labelled paragraph, and, in a beat whose texts hold no \<^verbatim>\<open><\<close> (so that no text
  imitates a label), the label occurs in the entry exactly when the value is truthy.
  The entry holds the text \<^verbatim>\<open>null\<close>, or \<^verbatim>\<open>undefined\<close>, only if one of the beat's own
  texts holds it: an absent value is never rendered as such a word.  Likewise the whole
  document holds the word only if the date in words or a text of one of its beats does.
\<close>

theorem html_optional_fields:
  "(markup_free b \<longrightarrow>
      (str_includes (beat_entry b) ''<strong>Conflict:</strong>''
         \<longleftrightarrow> truthy_str (BeatView.conflict b))
      \<and> (str_includes (beat_entry b) ''<strong>Emotion:</strong>''
         \<longleftrightarrow> truthy_str (BeatView.emotion b))
      \<and> (str_includes (beat_entry b) ''<strong>Location:</strong>''
         \<longleftrightarrow> truthy_str (BeatView.location b))
      \<and> (str_includes (beat_entry b) ''<strong>Time:</strong>''
         \<longleftrightarrow> truthy_str (time_of_day b))
      \<and> (str_includes (beat_entry b) ''<strong>Characters:</strong>''
         \<longleftrightarrow> truthy_str (BeatView.characters b)))
   \<and> (truthy_str (BeatView.conflict b) \<longrightarrow>
        str_includes (beat_entry b)
          (''<p><strong>Conflict:</strong> '' @ template_str (BeatView.conflict b) @ ''</p>''))
   \<and> (truthy_str (BeatView.emotion b) \<longrightarrow>
        str_includes (beat_entry b)
          (''<p><strong>Emotion:</strong> '' @ template_str (BeatView.emotion b) @ ''</p>''))
   \<and> (truthy_str (BeatView.location b) \<longrightarrow>
        str_includes (beat_entry b)
          (''<p><strong>Location:</strong> '' @ template_str (BeatView.location b) @ ''</p>''))
   \<and> (truthy_str (time_of_day b) \<longrightarrow>
        str_includes (beat_entry b)
          (''<p><strong>Time:</strong> '' @ template_str (time_of_day b) @ ''</p>''))
   \<and> (truthy_str (BeatView.characters b) \<longrightarrow>
        str_includes (beat_entry b)
          (''<p><strong>Characters:</strong> '' @ template_str (BeatView.characters b)
           @ ''</p>''))
   \<and> (\<not> mentions b ''null'' \<longrightarrow> \<not> str_includes (beat_entry b) ''null'')
   \<and> (\<not> mentions b ''undefined'' \<longrightarrow> \<not> str_includes (beat_entry b) ''undefined'')
   \<and> (\<not> str_includes today ''null''
        \<and> (\<forall>act\<in>set (acts report). \<forall>beat\<in>set (ActGroup.beats act). \<not> mentions beat ''null'')
      \<longrightarrow> \<not> str_includes (generateHTMLReport today report) ''null'')
   \<and> (\<not> str_includes today ''undefined''
        \<and> (\<forall>act\<in>set (acts report). \<forall>beat\<in>set (ActGroup.beats act).
              \<not> mentions beat ''undefined'')
      \<longrightarrow> \<not> str_includes (generateHTMLReport today report) ''undefined'')"
proof -
  have n: "\<not> str_includes (generateHTMLReport today report) ''null''"
    if "\<not> str_includes today ''null''"
      and "\<forall>act\<in>set (acts report). \<forall>beat\<in>set (ActGroup.beats act). \<not> mentions beat ''null''"
    using that by (intro document_no_null) blast+
  have u: "\<not> str_includes (generateHTMLReport today report) ''undefined''"
    if "\<not> str_includes today ''undefined''"
      and "\<forall>act\<in>set (acts report). \<forall>beat\<in>set (ActGroup.beats act).
             \<not> mentions beat ''undefined''"
    using that by (intro document_no_undefined) blast+
  from n u entry_label_conflict [of b] entry_label_emotion [of b] entry_label_location [of b]
    entry_label_time [of b] entry_label_characters [of b]
    entry_conflict [of b] entry_emotion [of b] entry_location [of b] entry_time [of b]
    entry_characters [of b] entry_no_null [of b] entry_no_undefined [of b]
  show ?thesis by blast
qed

theorem html_optional_fields_witness:
  "markup_free (beat_view example_beat)
   \<and> \<not> mentions (beat_view example_beat) ''null''
   \<and> \<not> mentions (beat_view example_beat) ''undefined''
   \<and> truthy_str (BeatView.location (beat_view example_beat))
   \<and> \<not> truthy_str (BeatView.emotion (beat_view example_beat))
   \<and> str_includes (beat_entry (beat_view example_beat)) ''<strong>Location:</strong>''
   \<and> \<not> str_includes (beat_entry (beat_view example_beat)) ''<strong>Emotion:</strong>''
   \<and> \<not> str_includes (beat_entry (beat_view example_beat)) ''null''
   \<and> \<not> str_includes (beat_entry (beat_view example_beat)) ''undefined''
   \<and> \<not> str_includes ''Monday, January 1, 2024'' ''null''
   \<and> acts example_report = [example_act]
   \<and> ActGroup.beats example_act = [beat_view example_beat]
   \<and> \<not> str_includes (generateHTMLReport ''Monday, January 1, 2024'' example_report) ''null''"
proof -
  have t: "\<not> str_includes ''Monday, January 1, 2024'' ''null''" by simp
  have a: "\<forall>act\<in>set (acts example_report). \<forall>beat\<in>set (ActGroup.beats act).
             \<not> mentions beat ''null''"
    by (simp add: example_report_def example_act_def mentions_def beat_view_def example_beat_def)
  have m: "markup_free (beat_view example_beat)"
    by (simp add: markup_free_def beat_view_def example_beat_def)
  have n: "\<not> mentions (beat_view example_beat) ''null''"
    by (simp add: mentions_def beat_view_def example_beat_def)
  have u: "\<not> mentions (beat_view example_beat) ''undefined''"
    by (simp add: mentions_def beat_view_def example_beat_def)
  have l: "truthy_str (BeatView.location (beat_view example_beat))"
    and e: "\<not> truthy_str (BeatView.emotion (beat_view example_beat))"
    by (simp_all add: beat_view_def example_beat_def)
  have r: "acts example_report = [example_act]"
    and g: "ActGroup.beats example_act = [beat_view example_beat]"
    by (simp_all add: example_report_def example_act_def)
  from html_optional_fields [of "beat_view example_beat" "''Monday, January 1, 2024''"
      example_report] m n u l e t a r g
  show ?thesis by blast
qed


section \<open>Properties of the print projector\<close>

lemma replace_first_at:
  assumes "p \<noteq> []" and "\<not> str_includes (h @ butlast p) p"
  shows "replace_first p r (h @ p @ rest) = h @ r @ rest"
  using assms(2)
proof (induction h)
  case Nil
  from assms(1) obtain c q where p: "p = c # q" by (cases p) auto
  then show ?case by simp
next
  case (Cons d h)
  from Cons.prems have n: "\<not> startsWith (d # h @ butlast p) p"
    and i: "\<not> str_includes (h @ butlast p) p" by auto
  have ns: "\<not> startsWith ((d # h @ butlast p) @ (last p # rest)) p"
  proof
    assume "startsWith ((d # h @ butlast p) @ (last p # rest)) p"
    moreover have "length p \<le> length (d # h @ butlast p)" by simp
    ultimately have "startsWith (d # h @ butlast p) p" by (rule startsWith_shorter)
    with n show False ..
  qed
  have e: "(d # h @ butlast p) @ (last p # rest) = d # h @ p @ rest"
    using append_butlast_last_id [OF assms(1)] by (metis append_Cons append_Nil append_assoc)
  from ns have "\<not> startsWith (d # h @ p @ rest) p" unfolding e .
  with Cons.IH [OF i] show ?case by simp
qed

lemma remove_actions_none:
  \<open>\<not> str_includes s ''<div class="actions">'' \<Longrightarrow> remove_actions s = s\<close>
  by (induction s) auto

lemma head_first_close: "\<not> str_includes (report_page_head @ ''</head'') ''</head>''"
  unfolding report_page_head_def
  by (simp only: split_simps)

lemma head_style_no_actions:
  \<open>\<not> str_includes (report_page_head @ pdf_style) ''<div class="actions">''\<close>
  unfolding report_page_head_def pdf_style_def
  by (simp only: split_simps)

lemma html_shape:
  "\<exists>rest. generateHTMLReport today report = report_page_head @ ''</head>'' @ CHR 0x0A # rest"
  by (simp add: generateHTMLReport_def)

lemma pdf_insert:
  "generatePDFOptimizedHTML today report =
     remove_actions
       (report_page_head @ pdf_style
        @ drop (length (report_page_head @ ''</head>'')) (generateHTMLReport today report))
   \<and> take (length (report_page_head @ ''</head>'')) (generateHTMLReport today report)
       = report_page_head @ ''</head>''"
proof -
  from html_shape obtain rest where
    h: "generateHTMLReport today report = report_page_head @ ''</head>'' @ CHR 0x0A # rest"
    by blast
  have "replace_first ''</head>'' pdf_style (report_page_head @ ''</head>'' @ CHR 0x0A # rest)
          = report_page_head @ pdf_style @ CHR 0x0A # rest"
    by (rule replace_first_at) (simp_all add: head_first_close)
  then show ?thesis
    by (simp add: generatePDFOptimizedHTML_def h)
qed

lemma pdf_without_actions:
  assumes \<open>\<not> str_includes (generateHTMLReport today report) ''<div class="actions">''\<close>
  shows "generatePDFOptimizedHTML today report =
           report_page_head @ pdf_style
           @ drop (length (report_page_head @ ''</head>'')) (generateHTMLReport today report)"
proof -
  from html_shape obtain rest where
    h: "generateHTMLReport today report = report_page_head @ ''</head>'' @ CHR 0x0A # rest"
    by blast
  have n: \<open>CHR 0x0A \<notin> set ''<div class="actions">''\<close> by simp
  have \<open>str_includes ((report_page_head @ ''</head>'') @ CHR 0x0A # rest) ''<div class="actions">''
        = (str_includes (report_page_head @ ''</head>'') ''<div class="actions">''
           \<or> str_includes rest ''<div class="actions">'')\<close>
    by (rule includes_split_char [OF n]) simp
  with assms h have r: \<open>\<not> str_includes rest ''<div class="actions">''\<close> by simp
  have \<open>str_includes ((report_page_head @ pdf_style) @ CHR 0x0A # rest) ''<div class="actions">''
        = (str_includes (report_page_head @ pdf_style) ''<div class="actions">''
           \<or> str_includes rest ''<div class="actions">'')\<close>
    by (rule includes_split_char [OF n]) simp
  with r head_style_no_actions
  have \<open>\<not> str_includes (report_page_head @ pdf_style @ CHR 0x0A # rest) ''<div class="actions">''\<close>
    by simp
  then have "remove_actions (report_page_head @ pdf_style @ CHR 0x0A # rest)
               = report_page_head @ pdf_style @ CHR 0x0A # rest"
    by (rule remove_actions_none)
  with pdf_insert [of today report] show ?thesis
    by (simp add: h)
qed


lemma head_no_actions: \<open>\<not> str_includes report_page_head ''<div class="actions">''\<close>
  unfolding report_page_head_def
  by (simp only: split_simps)

lemma entry_no_actions:
  \<open>markup_free b \<Longrightarrow> \<not> str_includes (beat_entry b) ''<div class="actions">''\<close>
  unfolding beat_entry_def by (simp add: label_simps)

lemma section_no_actions:
  assumes t: "CHR ''<'' \<notin> set today"
    and b: "\<And>beat. beat \<in> set (ActGroup.beats a) \<Longrightarrow> markup_free beat"
  shows \<open>\<not> str_includes (act_section today a) ''<div class="actions">''\<close>
proof -
  have e: \<open>\<not> str_includes (concat (map beat_entry (ActGroup.beats a))) ''<div class="actions">''\<close>
    by (rule concat_excludes [of "CHR 0x0A"]) (simp_all add: entry_starts entry_no_actions b)
  show ?thesis
    unfolding act_section_def
    by (simp add: includes_skip_data includes_skip_first number_no_lt e t)
qed

lemma nav_no_actions: \<open>\<not> str_includes (nav_item a) ''<div class="actions">''\<close>
  unfolding nav_item_def
  by (simp add: includes_skip_first number_no_lt)

lemma sidebar_no_actions: \<open>\<not> str_includes (sidebarHTML report) ''<div class="actions">''\<close>
proof -
  have e: \<open>\<not> str_includes (concat (map nav_item (acts report))) ''<div class="actions">''\<close>
    by (rule concat_excludes [of "CHR 0x0A"]) (simp_all add: nav_starts nav_no_actions)
  show ?thesis
    unfolding sidebarHTML_def
    by (simp add: includes_skip_data e)
qed

lemma document_no_actions:
  assumes t: "CHR ''<'' \<notin> set today"
    and b: "\<And>act beat. act \<in> set (acts report) \<Longrightarrow> beat \<in> set (ActGroup.beats act)
            \<Longrightarrow> markup_free beat"
  shows \<open>\<not> str_includes (generateHTMLReport today report) ''<div class="actions">''\<close>
proof -
  have s: \<open>\<not> str_includes (beatsHTML today report) ''<div class="actions">''\<close>
    unfolding beatsHTML_def
    by (rule concat_excludes [of "CHR 0x0A"])
      (simp_all add: section_starts section_no_actions t b)
  have k: \<open>str_includes (v @ rest) ''<div class="actions">''
           = str_includes rest ''<div class="actions">''\<close> if "CHR ''<'' \<notin> set v" for v rest
    by (rule includes_skip_first) (simp_all add: that)
  note k1 = k [OF t] k [OF nat_no_lt]
  show ?thesis
    unfolding generateHTMLReport_def
    by (simp only: split_simps includes_split_first includes_peel startsWith_peel append_Nil
          head_last head_no_actions sidebar_no_actions s k1)
qed

lemma head_close_no_nav:
  \<open>\<not> str_includes (report_page_head @ ''</head>'') ''<nav class="sidebar">''\<close>
  unfolding report_page_head_def
  by (simp only: split_simps)

lemma head_close_no_download:
  \<open>\<not> str_includes (report_page_head @ ''</head>'') ''Download CSV</a>''\<close>
  unfolding report_page_head_def
  by (simp only: split_simps)

lemma tail_includes:
  assumes "str_includes (generateHTMLReport today report) x"
    and "CHR 0x0A \<notin> set x" and "x \<noteq> []"
    and "\<not> str_includes (report_page_head @ ''</head>'') x"
  shows "str_includes
           (drop (length (report_page_head @ ''</head>'')) (generateHTMLReport today report)) x"
proof -
  from html_shape obtain rest where
    h: "generateHTMLReport today report = report_page_head @ ''</head>'' @ CHR 0x0A # rest"
    by blast
  have "str_includes ((report_page_head @ ''</head>'') @ CHR 0x0A # rest) x
        = (str_includes (report_page_head @ ''</head>'') x \<or> str_includes rest x)"
    by (rule includes_split_char [OF assms(2,3)])
  with assms(1,4) h have "str_includes rest x" by simp
  then have "str_includes (CHR 0x0A # rest) x" by simp
  then show ?thesis by (simp add: h)
qed

lemma html_includes_nav:
  \<open>str_includes (generateHTMLReport today report) ''<nav class="sidebar">''\<close>
  unfolding generateHTMLReport_def sidebarHTML_def
  apply (simp only: append_Cons append_Nil append_assoc)
  apply ((rule includes_here, (simp only: starts_simps; fail)) | rule includes_Cons
         | rule includes_right)+
  done

lemma html_includes_download:
  \<open>str_includes (generateHTMLReport today report) ''Download CSV</a>''\<close>
  unfolding generateHTMLReport_def
  apply (simp only: append_Cons append_Nil append_assoc)
  apply ((rule includes_here, (simp only: starts_simps; fail)) | rule includes_Cons
         | rule includes_right)+
  done

text \<open>
  C6.  The claim says that the print document is the HTML document with the action
  buttons and the sidebar navigation removed.  The print projector sets out to remove the
  action buttons: its style block hides the class \<^verbatim>\<open>actions\<close>, and it deletes the first
  \<^verbatim>\<open><div class="actions">\<close> element.  But the HTML document has no element of that class:
  its action button, the link \<^verbatim>\<open>Download CSV\<close>, stands in a \<^verbatim>\<open>div\<close> without a class.  So for
  every report whose date line and beat texts hold no \<^verbatim>\<open><\<close>, nothing is deleted: the print
  document is the HTML document with the style block in place of the \<^verbatim>\<open></head>\<close> that ends
  the head, and nothing else changed.  It still holds the download link, and the sidebar
  navigation, which the print projector does not touch.
\<close>

theorem print_keeps_chrome:
  assumes "CHR ''<'' \<notin> set today"
    and "\<forall>act\<in>set (acts report). \<forall>beat\<in>set (ActGroup.beats act). markup_free beat"
  shows \<open>generatePDFOptimizedHTML today report
           = remove_actions
               (replace_first ''</head>'' pdf_style (generateHTMLReport today report))
    \<and> \<not> str_includes (generateHTMLReport today report) ''<div class="actions">''
    \<and> generatePDFOptimizedHTML today report
        = report_page_head @ pdf_style
          @ drop (length (report_page_head @ ''</head>'')) (generateHTMLReport today report)
    \<and> take (length (report_page_head @ ''</head>'')) (generateHTMLReport today report)
        = report_page_head @ ''</head>''
    \<and> str_includes (generatePDFOptimizedHTML today report) ''Download CSV</a>''
    \<and> str_includes (generatePDFOptimizedHTML today report) ''<nav class="sidebar">''\<close>
proof -
  have h: \<open>\<not> str_includes (generateHTMLReport today report) ''<div class="actions">''\<close>
    using assms by (intro document_no_actions) auto
  have n: \<open>str_includes
             (drop (length (report_page_head @ ''</head>'')) (generateHTMLReport today report))
             ''<nav class="sidebar">''\<close>
    by (rule tail_includes [OF html_includes_nav _ _ head_close_no_nav]) simp_all
  have d: \<open>str_includes
             (drop (length (report_page_head @ ''</head>'')) (generateHTMLReport today report))
             ''Download CSV</a>''\<close>
    by (rule tail_includes [OF html_includes_download _ _ head_close_no_download]) simp_all
  have k: \<open>str_includes (generatePDFOptimizedHTML today report) ''Download CSV</a>''
           \<and> str_includes (generatePDFOptimizedHTML today report) ''<nav class="sidebar">''\<close>
    unfolding pdf_without_actions [OF h]
    by (intro conjI includes_right n d)
  have g: "generatePDFOptimizedHTML today report
             = remove_actions
                 (replace_first ''</head>'' pdf_style (generateHTMLReport today report))"
    by (simp add: generatePDFOptimizedHTML_def)
  from g h pdf_without_actions [OF h] pdf_insert [of today report] k
  show ?thesis by blast
qed

theorem print_keeps_chrome_witness:
  \<open>CHR ''<'' \<notin> set ''Monday, January 1, 2024''
   \<and> acts example_report = [example_act]
   \<and> ActGroup.beats example_act = [beat_view example_beat]
   \<and> markup_free (beat_view example_beat)
   \<and> generatePDFOptimizedHTML ''Monday, January 1, 2024'' example_report
       = report_page_head @ pdf_style
         @ drop (length (report_page_head @ ''</head>''))
             (generateHTMLReport ''Monday, January 1, 2024'' example_report)
   \<and> str_includes (generatePDFOptimizedHTML ''Monday, January 1, 2024'' example_report)
       ''Download CSV</a>''
   \<and> str_includes (generatePDFOptimizedHTML ''Monday, January 1, 2024'' example_report)
       ''<nav class="sidebar">''\<close>
proof -
  have t: "CHR ''<'' \<notin> set ''Monday, January 1, 2024''" by simp
  have r: "acts example_report = [example_act]"
    and g: "ActGroup.beats example_act = [beat_view example_beat]"
    by (simp_all add: example_report_def example_act_def)
  have m: "markup_free (beat_view example_beat)"
    by (simp add: markup_free_def beat_view_def example_beat_def)
  from r g m
  have a: "\<forall>act\<in>set (acts example_report). \<forall>beat\<in>set (ActGroup.beats act). markup_free beat"
    by simp
  from print_keeps_chrome [OF t a] t r g m
  show ?thesis by blast
qed


end
